theory Spec2Isabelle
  imports Complex_Main
begin

section \<open>The simulation engine as the script sees it\<close>

text \<open>
  \<^verbatim>\<open>Learning_NEURON.py\<close> is a linear script over the API of an external simulation engine
  (\<^verbatim>\<open>neuron.n\<close>) and of a plotting library (\<^verbatim>\<open>plt\<close>). The model keeps an explicit
  engine state: the tables of the objects that the script has created (sections, stimuli,
  synapses, connections, vectors) with the parameters that the script has assigned to
  them, and the log of every call the script has made, in order. A Python reference to
  an engine object is the index of the object in its table.

  The numerical state of the engine (membrane voltages, the contents of recording
  vectors) is not represented: it is computed by the engine, not by the script. The
  engine's floating-point numbers are idealised as reals; the theorems below concern
  which expression is stored where, never rounding.
\<close>

subsection \<open>Objects\<close>

record pt3d =
  px :: real
  py :: real
  pz :: real
  pdiam :: real

text \<open>
  A section. An attribute that the script has not assigned is \<open>None\<close> (the engine's
  default applies). \<open>sec_segvars\<close> holds the assignments to range variables of
  mechanisms, by segment index and variable name, latest first.
\<close>

record sect =
  sec_name :: string
  sec_parent :: "nat option"
  sec_L :: "real option"
  sec_diam :: "real option"
  sec_Ra :: "real option"
  sec_cm :: "real option"
  sec_nseg :: nat
  sec_mechs :: "string list"
  sec_segvars :: "((nat \<times> string) \<times> real) list"
  sec_pts :: "pt3d list"

record netstim =
  stim_number :: "real option"
  stim_start :: "real option"

text \<open>A synapse \<^verbatim>\<open>ExpSyn(sec(loc))\<close>: a point process on a segment of a section.\<close>

record expsyn =
  syn_sec :: nat
  syn_loc :: real
  syn_tau :: "real option"

text \<open>
  The source of a \<^verbatim>\<open>NetCon\<close>: an event generator (\<^verbatim>\<open>NetCon(stim, syn)\<close>) or the membrane
  voltage of a segment (\<^verbatim>\<open>NetCon(sec(loc)._ref_v, syn, sec=sec)\<close>).
\<close>

datatype nc_source = SrcStim nat | SrcVoltage nat real

record netcon =
  nc_src :: nc_source
  nc_sec :: "nat option"
  nc_target :: nat
  nc_weight0 :: "real option"
  nc_delay :: "real option"
  nc_record :: "nat option"

text \<open>
  What a recording vector is bound to: \<^verbatim>\<open>sec(loc)._ref_v\<close>, \<^verbatim>\<open>n._ref_t\<close>,
  \<^verbatim>\<open>syn._ref_i\<close>, or the spike times of a connection (\<^verbatim>\<open>nc.record(vec)\<close>).
\<close>

datatype ref = RefV nat real | RefT | RefI nat | RefSpikes nat

record vector =
  vec_bound :: "ref option"

subsection \<open>The log of calls\<close>

datatype call =
    LoadFile string
  | NewSection nat string
  | Connect nat nat
  | SetL nat real
  | SetDiam nat real
  | SetRa nat real
  | SetCm nat real
  | Insert nat string
  | SetSegVar nat nat string real
  | Pt3dchange nat nat
  | DefineShape
  | Topology
  | NewNetStim nat
  | SetNumber nat real
  | SetStart nat real
  | NewExpSyn nat
  | SetTau nat real
  | NewNetCon nat
  | SetWeight nat real
  | SetDelay nat real
  | NewVector nat
  | Record nat ref
  | Finitialize real
  | Continuerun real
  | AsNumpy nat
  | PltFigure
  | PltVlines nat real real
  | PltXlabel string
  | PltYlabel string
  | PltShow

record engine =
  e_secs :: "sect list"
  e_stims :: "netstim list"
  e_syns :: "expsyn list"
  e_netcons :: "netcon list"
  e_vecs :: "vector list"
  e_log :: "call list"

definition e0 :: engine where
  "e0 = \<lparr>e_secs = [], e_stims = [], e_syns = [], e_netcons = [], e_vecs = [], e_log = []\<rparr>"

definition logc :: "call \<Rightarrow> engine \<Rightarrow> engine" where
  "logc c e = e\<lparr>e_log := e_log e @ [c]\<rparr>"

definition upd_sec :: "nat \<Rightarrow> (sect \<Rightarrow> sect) \<Rightarrow> engine \<Rightarrow> engine" where
  "upd_sec k f e = e\<lparr>e_secs := (e_secs e)[k := f (e_secs e ! k)]\<rparr>"

text \<open>
  The constants of \<^verbatim>\<open>neuron.units\<close>: the engine's own units (micron, millisecond,
  millivolt) are the number 1 there.
\<close>

definition um :: real where "um = 1"
definition ms :: real where "ms = 1"
definition mV :: real where "mV = 1"

subsection \<open>Engine calls on sections\<close>

text \<open>\<^verbatim>\<open>n.Section(name=...)\<close>: a new section, unconnected, with one segment and no 3D points.\<close>

definition Section :: "string \<Rightarrow> engine \<Rightarrow> nat \<times> engine" where
  "Section name e =
     (let k = length (e_secs e)
      in (k, logc (NewSection k name)
               (e\<lparr>e_secs := e_secs e @
                    [\<lparr>sec_name = name, sec_parent = None, sec_L = None, sec_diam = None,
                      sec_Ra = None, sec_cm = None, sec_nseg = 1, sec_mechs = [],
                      sec_segvars = [], sec_pts = []\<rparr>]\<rparr>)))"

definition connect :: "nat \<Rightarrow> nat \<Rightarrow> engine \<Rightarrow> engine" where
  "connect child parent e =
     logc (Connect child parent) (upd_sec child (\<lambda>s. s\<lparr>sec_parent := Some parent\<rparr>) e)"

definition set_L :: "nat \<Rightarrow> real \<Rightarrow> engine \<Rightarrow> engine" where
  "set_L k v e = logc (SetL k v) (upd_sec k (\<lambda>s. s\<lparr>sec_L := Some v\<rparr>) e)"

definition set_diam :: "nat \<Rightarrow> real \<Rightarrow> engine \<Rightarrow> engine" where
  "set_diam k v e = logc (SetDiam k v) (upd_sec k (\<lambda>s. s\<lparr>sec_diam := Some v\<rparr>) e)"

definition set_Ra :: "nat \<Rightarrow> real \<Rightarrow> engine \<Rightarrow> engine" where
  "set_Ra k v e = logc (SetRa k v) (upd_sec k (\<lambda>s. s\<lparr>sec_Ra := Some v\<rparr>) e)"

definition set_cm :: "nat \<Rightarrow> real \<Rightarrow> engine \<Rightarrow> engine" where
  "set_cm k v e = logc (SetCm k v) (upd_sec k (\<lambda>s. s\<lparr>sec_cm := Some v\<rparr>) e)"

definition insert_mech :: "nat \<Rightarrow> string \<Rightarrow> engine \<Rightarrow> engine" where
  "insert_mech k m e = logc (Insert k m) (upd_sec k (\<lambda>s. s\<lparr>sec_mechs := sec_mechs s @ [m]\<rparr>) e)"

definition set_segvar :: "nat \<Rightarrow> nat \<Rightarrow> string \<Rightarrow> real \<Rightarrow> engine \<Rightarrow> engine" where
  "set_segvar k seg var v e =
     logc (SetSegVar k seg var v)
       (upd_sec k (\<lambda>s. s\<lparr>sec_segvars := ((seg, var), v) # sec_segvars s\<rparr>) e)"

text \<open>\<^verbatim>\<open>for seg in sec\<close>: the segments of a section, by index.\<close>

definition segments :: "engine \<Rightarrow> nat \<Rightarrow> nat list" where
  "segments e k = [0..<sec_nseg (e_secs e ! k)]"

text \<open>
  \<^verbatim>\<open>sec.wholetree()\<close>: every section of the tree that holds \<open>sec\<close>. The root of a
  section is found along the parent links; the fuel is the number of sections.
\<close>

fun sec_root :: "sect list \<Rightarrow> nat \<Rightarrow> nat \<Rightarrow> nat" where
  "sec_root secs 0 k = k"
| "sec_root secs (Suc fuel) k =
     (case sec_parent (secs ! k) of None \<Rightarrow> k | Some p \<Rightarrow> sec_root secs fuel p)"

definition wholetree :: "engine \<Rightarrow> nat \<Rightarrow> nat list" where
  "wholetree e k =
     (let secs = e_secs e; n = length secs
      in filter (\<lambda>j. sec_root secs n j = sec_root secs n k) [0..<n])"

text \<open>
  The 3D points of a section. Reading or changing a point that does not exist is an
  error of the engine (\<open>None\<close>).
\<close>

definition n3d :: "engine \<Rightarrow> nat \<Rightarrow> nat" where
  "n3d e k = length (sec_pts (e_secs e ! k))"

definition pt3d_at :: "engine \<Rightarrow> nat \<Rightarrow> nat \<Rightarrow> pt3d option" where
  "pt3d_at e k i = (if i < n3d e k then Some (sec_pts (e_secs e ! k) ! i) else None)"

definition x3d :: "engine \<Rightarrow> nat \<Rightarrow> nat \<Rightarrow> real option" where
  "x3d e k i = map_option px (pt3d_at e k i)"

definition y3d :: "engine \<Rightarrow> nat \<Rightarrow> nat \<Rightarrow> real option" where
  "y3d e k i = map_option py (pt3d_at e k i)"

definition z3d :: "engine \<Rightarrow> nat \<Rightarrow> nat \<Rightarrow> real option" where
  "z3d e k i = map_option pz (pt3d_at e k i)"

definition diam3d :: "engine \<Rightarrow> nat \<Rightarrow> nat \<Rightarrow> real option" where
  "diam3d e k i = map_option pdiam (pt3d_at e k i)"

definition pt3dchange :: "nat \<Rightarrow> nat \<Rightarrow> real \<Rightarrow> real \<Rightarrow> real \<Rightarrow> real \<Rightarrow> engine \<Rightarrow> engine option" where
  "pt3dchange k i x y z d e =
     (if i < n3d e k
      then Some (logc (Pt3dchange k i)
             (upd_sec k (\<lambda>s. s\<lparr>sec_pts := (sec_pts s)[i := \<lparr>px = x, py = y, pz = z, pdiam = d\<rparr>]\<rparr>) e))
      else None)"

text \<open>
  \<^verbatim>\<open>n.define_shape()\<close> gives 3D points to the sections that have none. The layout is
  the engine's; it is the parameter \<open>shp\<close>, from the section table and the index of a
  section to its points.
\<close>

definition define_shape :: "(sect list \<Rightarrow> nat \<Rightarrow> pt3d list) \<Rightarrow> engine \<Rightarrow> engine" where
  "define_shape shp e =
     logc DefineShape
       (e\<lparr>e_secs := map (\<lambda>k. let s = e_secs e ! k
                               in if sec_pts s = [] then s\<lparr>sec_pts := shp (e_secs e) k\<rparr> else s)
                         [0..<length (e_secs e)]\<rparr>)"

subsection \<open>Loops over a state that may fail\<close>

fun for_each :: "('a \<Rightarrow> 's \<Rightarrow> 's option) \<Rightarrow> 'a list \<Rightarrow> 's \<Rightarrow> 's option" where
  "for_each f [] s = Some s"
| "for_each f (x # xs) s = (case f x s of None \<Rightarrow> None | Some s' \<Rightarrow> for_each f xs s')"

section \<open>The classes \<^verbatim>\<open>Cell\<close> and \<^verbatim>\<open>BallAndStick\<close>\<close>

record cell =
  c_id :: int
  c_soma :: nat
  c_dend :: nat
  c_all :: "nat list"
  c_x :: real
  c_y :: real
  c_z :: real

text \<open>\<^verbatim>\<open>Cell.set_position\<close>: every 3D point is shifted, then the stored position is replaced.\<close>

definition shift_pt :: "cell \<Rightarrow> real \<Rightarrow> real \<Rightarrow> real \<Rightarrow> nat \<Rightarrow> nat \<Rightarrow> engine \<Rightarrow> engine option" where
  "shift_pt c x y z sec i e =
     (case (x3d e sec i, y3d e sec i, z3d e sec i, diam3d e sec i) of
        (Some xi, Some yi, Some zi, Some di) \<Rightarrow>
          pt3dchange sec i (x - c_x c + xi) (y - c_y c + yi) (z - c_z c + zi) di e
      | _ \<Rightarrow> None)"

definition set_position :: "cell \<Rightarrow> real \<Rightarrow> real \<Rightarrow> real \<Rightarrow> engine \<Rightarrow> (cell \<times> engine) option" where
  "set_position c x y z e =
     (case for_each (\<lambda>sec e. for_each (shift_pt c x y z sec) [0..<n3d e sec] e) (c_all c) e of
        None \<Rightarrow> None
      | Some e' \<Rightarrow> Some (c\<lparr>c_x := x, c_y := y, c_z := z\<rparr>, e'))"

text \<open>
  \<^verbatim>\<open>Cell.rotate_z\<close>. The body of the inner loop reads the point \<open>i\<close> of the section and
  writes it back rotated; no attribute of the cell is assigned.
\<close>

definition rotate_pt :: "real \<Rightarrow> nat \<Rightarrow> nat \<Rightarrow> engine \<Rightarrow> engine option" where
  "rotate_pt theta sec i e =
     (case (x3d e sec i, y3d e sec i) of
        (Some x, Some y) \<Rightarrow>
          (let x_new = x * cos theta - y * sin theta;
               y_new = x * sin theta + y * cos theta
           in case (z3d e sec i, diam3d e sec i) of
                (Some z, Some d) \<Rightarrow> pt3dchange sec i x_new y_new z d e
              | _ \<Rightarrow> None)
      | _ \<Rightarrow> None)"

definition rotate_sec :: "real \<Rightarrow> nat \<Rightarrow> engine \<Rightarrow> engine option" where
  "rotate_sec theta sec e = for_each (rotate_pt theta sec) [0..<n3d e sec] e"

definition rotate_z :: "cell \<Rightarrow> real \<Rightarrow> engine \<Rightarrow> (cell \<times> engine) option" where
  "rotate_z c theta e =
     (case for_each (rotate_sec theta) (c_all c) e of
        None \<Rightarrow> None
      | Some e' \<Rightarrow> Some (c, e'))"

text \<open>\<^verbatim>\<open>BallAndStick.setup_morphology\<close>; it returns the new soma and dendrite.\<close>

definition setup_morphology :: "engine \<Rightarrow> nat \<times> nat \<times> engine" where
  "setup_morphology e =
     (let (soma, e) = Section ''soma'' e;
          (dend, e) = Section ''dend'' e;
          e = connect dend soma e;
          e = set_L soma (12.6157 * um) e;
          e = set_diam soma (12.6157 * um) e;
          e = set_L dend (200 * um) e;
          e = set_diam dend (1 * um) e
      in (soma, dend, e))"

text \<open>\<^verbatim>\<open>BallAndStick.setup_biophysics\<close>.\<close>

definition setup_biophysics :: "nat \<Rightarrow> nat \<Rightarrow> nat list \<Rightarrow> engine \<Rightarrow> engine" where
  "setup_biophysics soma dend all e =
     (let e = fold (\<lambda>sec e. set_cm sec 1 (set_Ra sec 100 e)) all e;
          e = insert_mech soma ''hh'' e;
          e = fold (\<lambda>seg e. set_segvar soma seg ''hh.el'' (- 54.3)
                            (set_segvar soma seg ''hh.gl'' 0.0003
                            (set_segvar soma seg ''hh.gkbar'' 0.036
                            (set_segvar soma seg ''hh.gnabar'' 0.12 e))))
                   (segments e soma) e;
          e = insert_mech dend ''pas'' e;
          e = fold (\<lambda>seg e. set_segvar dend seg ''pas.e'' (- 65)
                            (set_segvar dend seg ''pas.g'' 0.001 e))
                   (segments e dend) e
      in e)"

text \<open>
  \<^verbatim>\<open>Cell.__init__\<close>, as inherited by \<^verbatim>\<open>BallAndStick\<close>: the position is stored in the
  attributes, \<^verbatim>\<open>rotate_z(theta)\<close> runs, then \<^verbatim>\<open>n.define_shape()\<close>.
\<close>

definition BallAndStick ::
  "(sect list \<Rightarrow> nat \<Rightarrow> pt3d list) \<Rightarrow> int \<Rightarrow> real \<Rightarrow> real \<Rightarrow> real \<Rightarrow> real \<Rightarrow> engine
     \<Rightarrow> (cell \<times> engine) option" where
  "BallAndStick shp id' x y z theta e =
     (let (soma, dend, e) = setup_morphology e;
          all = wholetree e soma;
          e = setup_biophysics soma dend all e;
          c = \<lparr>c_id = id', c_soma = soma, c_dend = dend, c_all = all,
               c_x = x, c_y = y, c_z = z\<rparr>
      in case rotate_z c theta e of
           None \<Rightarrow> None
         | Some (c, e) \<Rightarrow> Some (c, define_shape shp e))"

text \<open>
  \<^verbatim>\<open>create_n_BallAndStick\<close>. \<^verbatim>\<open>range(n_cells)\<close> is empty for \<open>n_cells \<le> 0\<close>; the
  division by \<open>n_cells\<close> happens inside the loop only.
\<close>

definition range_py :: "int \<Rightarrow> int list" where
  "range_py n = map int [0..<nat n]"

definition create_step ::
  "(sect list \<Rightarrow> nat \<Rightarrow> pt3d list) \<Rightarrow> int \<Rightarrow> real \<Rightarrow> int \<Rightarrow> cell list \<times> engine
     \<Rightarrow> (cell list \<times> engine) option" where
  "create_step shp n_cells r i ce =
     (let (cells, e) = ce;
          theta = real_of_int (i * 2) * pi / real_of_int n_cells
      in case BallAndStick shp i (cos theta * r) (sin theta * r) 0 theta e of
           None \<Rightarrow> None
         | Some (c, e) \<Rightarrow> Some (cells @ [c], e))"

definition create_n_BallAndStick ::
  "(sect list \<Rightarrow> nat \<Rightarrow> pt3d list) \<Rightarrow> int \<Rightarrow> real \<Rightarrow> engine \<Rightarrow> (cell list \<times> engine) option" where
  "create_n_BallAndStick shp n_cells r e =
     for_each (create_step shp n_cells r) (range_py n_cells) ([], e)"

section \<open>Engine calls on stimuli, synapses, connections and vectors\<close>

definition NetStim :: "engine \<Rightarrow> nat \<times> engine" where
  "NetStim e =
     (let k = length (e_stims e)
      in (k, logc (NewNetStim k)
               (e\<lparr>e_stims := e_stims e @ [\<lparr>stim_number = None, stim_start = None\<rparr>]\<rparr>)))"

definition set_number :: "nat \<Rightarrow> real \<Rightarrow> engine \<Rightarrow> engine" where
  "set_number k v e =
     logc (SetNumber k v) (e\<lparr>e_stims := (e_stims e)[k := (e_stims e ! k)\<lparr>stim_number := Some v\<rparr>]\<rparr>)"

definition set_start :: "nat \<Rightarrow> real \<Rightarrow> engine \<Rightarrow> engine" where
  "set_start k v e =
     logc (SetStart k v) (e\<lparr>e_stims := (e_stims e)[k := (e_stims e ! k)\<lparr>stim_start := Some v\<rparr>]\<rparr>)"

definition ExpSyn :: "nat \<Rightarrow> real \<Rightarrow> engine \<Rightarrow> nat \<times> engine" where
  "ExpSyn sec loc e =
     (let k = length (e_syns e)
      in (k, logc (NewExpSyn k)
               (e\<lparr>e_syns := e_syns e @ [\<lparr>syn_sec = sec, syn_loc = loc, syn_tau = None\<rparr>]\<rparr>)))"

definition set_tau :: "nat \<Rightarrow> real \<Rightarrow> engine \<Rightarrow> engine" where
  "set_tau k v e =
     logc (SetTau k v) (e\<lparr>e_syns := (e_syns e)[k := (e_syns e ! k)\<lparr>syn_tau := Some v\<rparr>]\<rparr>)"

definition NetCon :: "nc_source \<Rightarrow> nat option \<Rightarrow> nat \<Rightarrow> engine \<Rightarrow> nat \<times> engine" where
  "NetCon src sec target e =
     (let k = length (e_netcons e)
      in (k, logc (NewNetCon k)
               (e\<lparr>e_netcons := e_netcons e @
                    [\<lparr>nc_src = src, nc_sec = sec, nc_target = target, nc_weight0 = None,
                      nc_delay = None, nc_record = None\<rparr>]\<rparr>)))"

definition set_weight0 :: "nat \<Rightarrow> real \<Rightarrow> engine \<Rightarrow> engine" where
  "set_weight0 k v e =
     logc (SetWeight k v)
       (e\<lparr>e_netcons := (e_netcons e)[k := (e_netcons e ! k)\<lparr>nc_weight0 := Some v\<rparr>]\<rparr>)"

definition set_delay :: "nat \<Rightarrow> real \<Rightarrow> engine \<Rightarrow> engine" where
  "set_delay k v e =
     logc (SetDelay k v)
       (e\<lparr>e_netcons := (e_netcons e)[k := (e_netcons e ! k)\<lparr>nc_delay := Some v\<rparr>]\<rparr>)"

definition Vector :: "engine \<Rightarrow> nat \<times> engine" where
  "Vector e =
     (let k = length (e_vecs e)
      in (k, logc (NewVector k) (e\<lparr>e_vecs := e_vecs e @ [\<lparr>vec_bound = None\<rparr>]\<rparr>)))"

text \<open>\<^verbatim>\<open>vec.record(ref)\<close> binds the vector and returns it.\<close>

definition record_vec :: "nat \<Rightarrow> ref \<Rightarrow> engine \<Rightarrow> nat \<times> engine" where
  "record_vec v r e =
     (v, logc (Record v r)
           (e\<lparr>e_vecs := (e_vecs e)[v := (e_vecs e ! v)\<lparr>vec_bound := Some r\<rparr>]\<rparr>))"

text \<open>\<^verbatim>\<open>nc.record(vec)\<close> binds the vector to the spike times of the connection.\<close>

definition netcon_record :: "nat \<Rightarrow> nat \<Rightarrow> engine \<Rightarrow> engine" where
  "netcon_record nc v e =
     logc (Record v (RefSpikes nc))
       (e\<lparr>e_netcons := (e_netcons e)[nc := (e_netcons e ! nc)\<lparr>nc_record := Some v\<rparr>],
          e_vecs := (e_vecs e)[v := (e_vecs e ! v)\<lparr>vec_bound := Some (RefSpikes nc)\<rparr>]\<rparr>)"

section \<open>The script\<close>

record globals =
  g_my_cells :: "cell list"
  g_stim :: nat
  g_syn :: nat
  g_ncstim :: nat
  g_recording_cell :: cell
  g_v_vec :: nat
  g_t_vec :: nat
  g_d_vec :: nat
  g_syn_i :: nat
  g_syns :: "nat list"
  g_netcons :: "nat list"
  g_spike_times :: "nat list"

text \<open>\<^verbatim>\<open>xs[i]\<close> for \<open>i \<ge> 0\<close>: an IndexError (\<open>None\<close>) out of range.\<close>

definition py_index :: "'a list \<Rightarrow> nat \<Rightarrow> 'a option" where
  "py_index xs i = (if i < length xs then Some (xs ! i) else None)"

text \<open>Lines 88 to 96: the stimulus, its synapse and the connection between them.\<close>

definition make_stimulus :: "cell \<Rightarrow> engine \<Rightarrow> nat \<times> nat \<times> nat \<times> engine" where
  "make_stimulus c0 e =
     (let (stim, e) = NetStim e;
          (syn', e) = ExpSyn (c_dend c0) 0.5 e;
          e = set_number stim 1 e;
          e = set_start stim (9 * ms) e;
          (ncstim, e) = NetCon (SrcStim stim) None syn' e;
          e = set_delay ncstim (1 * ms) e;
          e = set_weight0 ncstim 0.04 e;
          e = set_tau syn' (2 * ms) e
      in (stim, syn', ncstim, e))"

text \<open>Lines 100 to 103: the four recording vectors.\<close>

definition make_recordings :: "cell \<Rightarrow> nat \<Rightarrow> engine \<Rightarrow> nat \<times> nat \<times> nat \<times> nat \<times> engine" where
  "make_recordings recording_cell syn' e =
     (let (v, e) = Vector e; (v_vec, e) = record_vec v (RefV (c_soma recording_cell) 0.5) e;
          (v, e) = Vector e; (t_vec, e) = record_vec v RefT e;
          (v, e) = Vector e; (d_vec, e) = record_vec v (RefV (c_dend recording_cell) 0.5) e;
          (v, e) = Vector e; (syn_i, e) = record_vec v (RefI syn') e
      in (v_vec, t_vec, d_vec, syn_i, e))"

text \<open>Lines 105 to 113: the body of the loop over the pairs (source, target), and the loop.\<close>

definition ring_step :: "cell \<times> cell \<Rightarrow> nat list \<times> nat list \<times> engine \<Rightarrow> nat list \<times> nat list \<times> engine" where
  "ring_step st acc =
     (let (source, target) = st;
          (syns, netcons, e) = acc;
          (syn, e) = ExpSyn (c_dend target) 0.5 e;
          (netcon, e) = NetCon (SrcVoltage (c_soma source) 0.5) (Some (c_soma source)) syn e;
          e = set_weight0 netcon 0.05 e;
          e = set_delay netcon 5 e
      in (syns @ [syn], netcons @ [netcon], e))"

definition make_ring :: "cell list \<Rightarrow> engine \<Rightarrow> (nat list \<times> nat list \<times> engine) option" where
  "make_ring my_cells e =
     (case py_index my_cells 0 of
        None \<Rightarrow> None
      | Some c0 \<Rightarrow> Some (fold ring_step (zip my_cells (drop 1 my_cells @ [c0])) ([], [], e)))"

text \<open>Lines 115 to 117: one new vector for each connection, then each bound to its connection.\<close>

definition make_spike_times :: "nat list \<Rightarrow> engine \<Rightarrow> nat list \<times> engine" where
  "make_spike_times netcons e =
     (let (spike_times, e) =
            fold (\<lambda>nc (vs, e). let (v, e) = Vector e in (vs @ [v], e)) netcons ([], e);
          e = fold (\<lambda>(nc, spike_t_vec) e. netcon_record nc spike_t_vec e)
                (zip netcons spike_times) e
      in (spike_times, e))"

text \<open>Lines 82 to 117: everything between the construction of the cells and the run.\<close>

definition setup_network :: "cell list \<Rightarrow> engine \<Rightarrow> (globals \<times> engine) option" where
  "setup_network my_cells e =
     (let e = logc Topology e
      in case py_index my_cells 0 of
           None \<Rightarrow> None
         | Some c0 \<Rightarrow>
             (let (stim, syn', ncstim, e) = make_stimulus c0 e
              in case py_index my_cells 0 of
                   None \<Rightarrow> None
                 | Some recording_cell \<Rightarrow>
                     (let (v_vec, t_vec, d_vec, syn_i, e) = make_recordings recording_cell syn' e
                      in case make_ring my_cells e of
                           None \<Rightarrow> None
                         | Some (syns, netcons, e) \<Rightarrow>
                             (let (spike_times, e) = make_spike_times netcons e
                              in Some (\<lparr>g_my_cells = my_cells, g_stim = stim, g_syn = syn',
                                        g_ncstim = ncstim, g_recording_cell = recording_cell,
                                        g_v_vec = v_vec, g_t_vec = t_vec, g_d_vec = d_vec,
                                        g_syn_i = syn_i, g_syns = syns, g_netcons = netcons,
                                        g_spike_times = spike_times\<rparr>, e)))))"

text \<open>Lines 7 to 117: everything before the run, from a fresh engine.\<close>

definition script_setup :: "(sect list \<Rightarrow> nat \<Rightarrow> pt3d list) \<Rightarrow> (globals \<times> engine) option" where
  "script_setup shp =
     (let e = logc (LoadFile ''stdrun.hoc'') e0
      in case create_n_BallAndStick shp 5 50 e of
           None \<Rightarrow> None
         | Some (my_cells, e) \<Rightarrow> setup_network my_cells e)"

text \<open>
  Lines 119 to 127: the run and the plot. Both calls of the integrator are logged; what
  the engine computes in them is outside the model. \<^verbatim>\<open>as_numpy\<close> reads a vector.
\<close>

definition finitialize :: "real \<Rightarrow> engine \<Rightarrow> engine" where
  "finitialize v e = logc (Finitialize v) e"

definition continuerun :: "real \<Rightarrow> engine \<Rightarrow> engine" where
  "continuerun t e = logc (Continuerun t) e"

definition plot_step :: "nat \<times> nat \<Rightarrow> engine \<Rightarrow> engine" where
  "plot_step iv e =
     (let (i, spike_t_vec) = iv;
          e = logc (AsNumpy spike_t_vec) e
      in logc (PltVlines spike_t_vec (real i + 0.5) (real i + 1.5)) e)"

definition run_and_plot :: "globals \<Rightarrow> engine \<Rightarrow> engine" where
  "run_and_plot g e =
     (let e = finitialize (- 65 * mV) e;
          e = continuerun (100 * ms) e;
          e = logc PltFigure e;
          e = fold plot_step (enumerate 0 (g_spike_times g)) e;
          e = logc (PltXlabel ''time (ms)'') e;
          e = logc (PltYlabel ''Cell index'') e
      in logc PltShow e)"

definition script :: "(sect list \<Rightarrow> nat \<Rightarrow> pt3d list) \<Rightarrow> (globals \<times> engine) option" where
  "script shp = (case script_setup shp of None \<Rightarrow> None | Some (g, e) \<Rightarrow> Some (g, run_and_plot g e))"

section \<open>Closed forms used in the proofs\<close>

text \<open>
  The definitions of this section are not part of the script: they name the values that the
  lemmas below prove the script to compute.
\<close>

text \<open>Every parent link of the table points to a section of the table.\<close>

definition parents_ok :: "sect list \<Rightarrow> bool" where
  "parents_ok secs = list_all (\<lambda>s. case sec_parent s of None \<Rightarrow> True | Some p \<Rightarrow> p < length secs) secs"

text \<open>A section without its 3D points: what the script itself has assigned.\<close>

definition sec_static :: "sect \<Rightarrow> sect" where
  "sec_static s = s\<lparr>sec_pts := []\<rparr>"

text \<open>The soma as \<^verbatim>\<open>setup_morphology\<close> and \<^verbatim>\<open>setup_biophysics\<close> leave it.\<close>

definition soma_sec :: sect where
  "soma_sec =
     \<lparr>sec_name = ''soma'', sec_parent = None, sec_L = Some (12.6157 * um),
      sec_diam = Some (12.6157 * um), sec_Ra = Some 100, sec_cm = Some 1, sec_nseg = 1,
      sec_mechs = [''hh''],
      sec_segvars = [((0, ''hh.el''), - 54.3), ((0, ''hh.gl''), 0.0003),
                     ((0, ''hh.gkbar''), 0.036), ((0, ''hh.gnabar''), 0.12)],
      sec_pts = []\<rparr>"

text \<open>The dendrite as they leave it, connected to the soma.\<close>

definition dend_sec :: "nat \<Rightarrow> sect" where
  "dend_sec soma =
     \<lparr>sec_name = ''dend'', sec_parent = Some soma, sec_L = Some (200 * um),
      sec_diam = Some (1 * um), sec_Ra = Some 100, sec_cm = Some 1, sec_nseg = 1,
      sec_mechs = [''pas''],
      sec_segvars = [((0, ''pas.e''), - 65), ((0, ''pas.g''), 0.001)],
      sec_pts = []\<rparr>"

text \<open>The calls of one \<^verbatim>\<open>BallAndStick(...)\<close> whose sections are \<open>n\<close> and \<open>Suc n\<close>.\<close>

definition cell_calls :: "nat \<Rightarrow> call list" where
  "cell_calls n =
     [NewSection n ''soma'', NewSection (Suc n) ''dend'', Connect (Suc n) n,
      SetL n (12.6157 * um), SetDiam n (12.6157 * um),
      SetL (Suc n) (200 * um), SetDiam (Suc n) (1 * um),
      SetRa n 100, SetCm n 1, SetRa (Suc n) 100, SetCm (Suc n) 1,
      Insert n ''hh'',
      SetSegVar n 0 ''hh.gnabar'' 0.12, SetSegVar n 0 ''hh.gkbar'' 0.036,
      SetSegVar n 0 ''hh.gl'' 0.0003, SetSegVar n 0 ''hh.el'' (- 54.3),
      Insert (Suc n) ''pas'',
      SetSegVar (Suc n) 0 ''pas.g'' 0.001, SetSegVar (Suc n) 0 ''pas.e'' (- 65),
      DefineShape]"

text \<open>The rotation of a point about the z axis, in the words of the specification.\<close>

definition planar_rotation :: "real \<Rightarrow> pt3d \<Rightarrow> pt3d" where
  "planar_rotation theta p =
     \<lparr>px = px p * cos theta - py p * sin theta,
      py = px p * sin theta + py p * cos theta,
      pz = pz p, pdiam = pdiam p\<rparr>"

text \<open>The angle of cell \<open>i\<close> among \<open>n_cells\<close>.\<close>

definition theta_of :: "int \<Rightarrow> int \<Rightarrow> real" where
  "theta_of n_cells i = real_of_int (i * 2) * pi / real_of_int n_cells"

text \<open>The attributes of cell \<open>i\<close> when the first new section is \<open>n0\<close>.\<close>

definition mk_cell :: "int \<Rightarrow> real \<Rightarrow> nat \<Rightarrow> nat \<Rightarrow> cell" where
  "mk_cell N r n0 i =
     \<lparr>c_id = int i, c_soma = n0 + 2 * i, c_dend = Suc (n0 + 2 * i),
      c_all = [n0 + 2 * i, Suc (n0 + 2 * i)],
      c_x = cos (theta_of N (int i)) * r, c_y = sin (theta_of N (int i)) * r, c_z = 0\<rparr>"

text \<open>The calls of lines 7 to 117, in order.\<close>

definition setup_log :: "call list" where
  "setup_log =
     LoadFile ''stdrun.hoc'' # concat (map cell_calls [0, 2, 4, 6, 8]) @
     [Topology, NewNetStim 0, NewExpSyn 0, SetNumber 0 1, SetStart 0 (9 * ms), NewNetCon 0,
      SetDelay 0 (1 * ms), SetWeight 0 0.04, SetTau 0 (2 * ms),
      NewVector 0, Record 0 (RefV 0 0.5), NewVector 1, Record 1 RefT,
      NewVector 2, Record 2 (RefV 1 0.5), NewVector 3, Record 3 (RefI 0),
      NewExpSyn 1, NewNetCon 1, SetWeight 1 0.05, SetDelay 1 5,
      NewExpSyn 2, NewNetCon 2, SetWeight 2 0.05, SetDelay 2 5,
      NewExpSyn 3, NewNetCon 3, SetWeight 3 0.05, SetDelay 3 5,
      NewExpSyn 4, NewNetCon 4, SetWeight 4 0.05, SetDelay 4 5,
      NewExpSyn 5, NewNetCon 5, SetWeight 5 0.05, SetDelay 5 5,
      NewVector 4, NewVector 5, NewVector 6, NewVector 7, NewVector 8,
      Record 4 (RefSpikes 1), Record 5 (RefSpikes 2), Record 6 (RefSpikes 3),
      Record 7 (RefSpikes 4), Record 8 (RefSpikes 5)]"

text \<open>The calls of lines 119 to 127, in order.\<close>

definition run_log :: "call list" where
  "run_log =
     [Finitialize (- 65 * mV), Continuerun (100 * ms), PltFigure,
      AsNumpy 4, PltVlines 4 0.5 1.5, AsNumpy 5, PltVlines 5 1.5 2.5,
      AsNumpy 6, PltVlines 6 2.5 3.5, AsNumpy 7, PltVlines 7 3.5 4.5,
      AsNumpy 8, PltVlines 8 4.5 5.5,
      PltXlabel ''time (ms)'', PltYlabel ''Cell index'', PltShow]"

text \<open>The variables of the script after line 117.\<close>

definition built_globals :: globals where
  "built_globals =
     \<lparr>g_my_cells = map (mk_cell 5 50 0) [0, 1, 2, 3, 4], g_stim = 0, g_syn = 0, g_ncstim = 0,
      g_recording_cell = mk_cell 5 50 0 0, g_v_vec = 0, g_t_vec = 1, g_d_vec = 2, g_syn_i = 3,
      g_syns = [1, 2, 3, 4, 5], g_netcons = [1, 2, 3, 4, 5], g_spike_times = [4, 5, 6, 7, 8]\<rparr>"

text \<open>The tables of the engine after line 117, over the sections \<open>S\<close> and the log \<open>L\<close>.\<close>

definition built_engine :: "sect list \<Rightarrow> call list \<Rightarrow> engine" where
  "built_engine S L =
     \<lparr>e_secs = S,
      e_stims = [\<lparr>stim_number = Some 1, stim_start = Some (9 * ms)\<rparr>],
      e_syns =
        [\<lparr>syn_sec = 1, syn_loc = 0.5, syn_tau = Some (2 * ms)\<rparr>,
         \<lparr>syn_sec = 3, syn_loc = 0.5, syn_tau = None\<rparr>,
         \<lparr>syn_sec = 5, syn_loc = 0.5, syn_tau = None\<rparr>,
         \<lparr>syn_sec = 7, syn_loc = 0.5, syn_tau = None\<rparr>,
         \<lparr>syn_sec = 9, syn_loc = 0.5, syn_tau = None\<rparr>,
         \<lparr>syn_sec = 1, syn_loc = 0.5, syn_tau = None\<rparr>],
      e_netcons =
        [\<lparr>nc_src = SrcStim 0, nc_sec = None, nc_target = 0, nc_weight0 = Some 0.04,
          nc_delay = Some (1 * ms), nc_record = None\<rparr>,
         \<lparr>nc_src = SrcVoltage 0 0.5, nc_sec = Some 0, nc_target = 1, nc_weight0 = Some 0.05,
          nc_delay = Some 5, nc_record = Some 4\<rparr>,
         \<lparr>nc_src = SrcVoltage 2 0.5, nc_sec = Some 2, nc_target = 2, nc_weight0 = Some 0.05,
          nc_delay = Some 5, nc_record = Some 5\<rparr>,
         \<lparr>nc_src = SrcVoltage 4 0.5, nc_sec = Some 4, nc_target = 3, nc_weight0 = Some 0.05,
          nc_delay = Some 5, nc_record = Some 6\<rparr>,
         \<lparr>nc_src = SrcVoltage 6 0.5, nc_sec = Some 6, nc_target = 4, nc_weight0 = Some 0.05,
          nc_delay = Some 5, nc_record = Some 7\<rparr>,
         \<lparr>nc_src = SrcVoltage 8 0.5, nc_sec = Some 8, nc_target = 5, nc_weight0 = Some 0.05,
          nc_delay = Some 5, nc_record = Some 8\<rparr>],
      e_vecs =
        [\<lparr>vec_bound = Some (RefV 0 0.5)\<rparr>, \<lparr>vec_bound = Some RefT\<rparr>,
         \<lparr>vec_bound = Some (RefV 1 0.5)\<rparr>, \<lparr>vec_bound = Some (RefI 0)\<rparr>,
         \<lparr>vec_bound = Some (RefSpikes 1)\<rparr>, \<lparr>vec_bound = Some (RefSpikes 2)\<rparr>,
         \<lparr>vec_bound = Some (RefSpikes 3)\<rparr>, \<lparr>vec_bound = Some (RefSpikes 4)\<rparr>,
         \<lparr>vec_bound = Some (RefSpikes 5)\<rparr>],
      e_log = L\<rparr>"

text \<open>The ten sections of the five cells, without their 3D points.\<close>

definition built_secs :: "sect list" where
  "built_secs = [soma_sec, dend_sec 0, soma_sec, dend_sec 2, soma_sec, dend_sec 4,
                 soma_sec, dend_sec 6, soma_sec, dend_sec 8]"

text \<open>The calls that the constructor of a cell makes on the engine.\<close>

fun builds_cell :: "call \<Rightarrow> bool" where
  "builds_cell (NewSection k name) = True"
| "builds_cell (Connect child parent) = True"
| "builds_cell (SetL k v) = True"
| "builds_cell (SetDiam k v) = True"
| "builds_cell (SetRa k v) = True"
| "builds_cell (SetCm k v) = True"
| "builds_cell (Insert k m) = True"
| "builds_cell (SetSegVar k seg var v) = True"
| "builds_cell (Pt3dchange k i) = True"
| "builds_cell DefineShape = True"
| "builds_cell c = False"

section \<open>Lemmas\<close>

lemma parents_okD: "parents_ok secs \<Longrightarrow> k < length secs \<Longrightarrow> sec_parent (secs ! k) = Some p \<Longrightarrow> p < length secs"
  by (auto simp: parents_ok_def list_all_length split: option.splits)

lemma for_each_append:
  "for_each f (xs @ ys) s = (case for_each f xs s of None \<Rightarrow> None | Some s' \<Rightarrow> for_each f ys s')"
  by (induction xs arbitrary: s) (auto split: option.splits)

lemma sec_root_old:
  "parents_ok secs \<Longrightarrow> j < length secs \<Longrightarrow> sec_root (secs @ xs) fuel j < length secs"
proof (induction fuel arbitrary: j)
  case 0
  then show ?case by simp
next
  case (Suc fuel)
  show ?case
  proof (cases "sec_parent (secs ! j)")
    case None
    with Suc.prems show ?thesis by (simp add: nth_append)
  next
    case (Some p)
    with Suc.prems have "p < length secs" by (auto dest: parents_okD)
    with Suc.IH[OF Suc.prems(1) this] Some Suc.prems show ?thesis by (simp add: nth_append)
  qed
qed

lemma upt_0_1: "[0..<1] = [0]"
  by (simp add: upt_rec)

lemma setup_morphology_eq:
  "setup_morphology e =
     (length (e_secs e), Suc (length (e_secs e)),
      e\<lparr>e_secs := e_secs e @
           [\<lparr>sec_name = ''soma'', sec_parent = None, sec_L = Some (12.6157 * um),
             sec_diam = Some (12.6157 * um), sec_Ra = None, sec_cm = None, sec_nseg = 1,
             sec_mechs = [], sec_segvars = [], sec_pts = []\<rparr>,
            \<lparr>sec_name = ''dend'', sec_parent = Some (length (e_secs e)), sec_L = Some (200 * um),
             sec_diam = Some (1 * um), sec_Ra = None, sec_cm = None, sec_nseg = 1,
             sec_mechs = [], sec_segvars = [], sec_pts = []\<rparr>],
        e_log := e_log e @
           [NewSection (length (e_secs e)) ''soma'', NewSection (Suc (length (e_secs e))) ''dend'',
            Connect (Suc (length (e_secs e))) (length (e_secs e)),
            SetL (length (e_secs e)) (12.6157 * um), SetDiam (length (e_secs e)) (12.6157 * um),
            SetL (Suc (length (e_secs e))) (200 * um), SetDiam (Suc (length (e_secs e))) (1 * um)]\<rparr>)"
  by (simp add: setup_morphology_def Section_def connect_def set_L_def set_diam_def logc_def
      upd_sec_def Let_def nth_append list_update_append)

lemma wholetree_new:
  assumes "parents_ok secs"
    and "sec_parent a = None" and "sec_parent b = Some (length secs)"
    and "e_secs e = secs @ [a, b]"
  shows "wholetree e (length secs) = [length secs, Suc (length secs)]"
proof -
  let ?n = "length secs"
  let ?S = "secs @ [a, b]"
  have r0: "sec_root ?S (Suc (Suc ?n)) ?n = ?n" using assms by (simp add: nth_append)
  have r1: "sec_root ?S (Suc (Suc ?n)) (Suc ?n) = ?n"
    using assms by (cases ?n) (simp_all add: nth_append)
  have old: "\<And>j. j < ?n \<Longrightarrow> sec_root ?S (Suc (Suc ?n)) j \<noteq> ?n"
    using sec_root_old[OF assms(1), of _ "[a, b]" "Suc (Suc ?n)"] by fastforce
  have "filter (\<lambda>j. sec_root ?S (Suc (Suc ?n)) j = ?n) [0..<?n] = []"
    using old by (simp add: filter_empty_conv)
  then show ?thesis
    using r0 r1 assms(4) by (simp add: wholetree_def Let_def)
qed

lemma define_shape_tables [simp]:
  "e_stims (define_shape shp e) = e_stims e"
  "e_syns (define_shape shp e) = e_syns e"
  "e_netcons (define_shape shp e) = e_netcons e"
  "e_vecs (define_shape shp e) = e_vecs e"
  "e_log (define_shape shp e) = e_log e @ [DefineShape]"
  "length (e_secs (define_shape shp e)) = length (e_secs e)"
  by (simp_all add: define_shape_def logc_def)

lemma define_shape_static [simp]:
  "map sec_static (e_secs (define_shape shp e)) = map sec_static (e_secs e)"
  by (rule nth_equalityI) (simp_all add: define_shape_def logc_def sec_static_def Let_def)

lemma parents_ok_static: "parents_ok (map sec_static secs) = parents_ok secs"
  by (simp add: parents_ok_def list_all_length sec_static_def split: option.splits)

lemma parents_ok_cell:
  "parents_ok secs \<Longrightarrow> parents_ok (secs @ [soma_sec, dend_sec (length secs)])"
  by (auto simp: parents_ok_def list_all_length soma_sec_def dend_sec_def nth_append nth_Cons
      split: option.splits nat.splits)

lemma BallAndStick_eq:
  assumes ok: "parents_ok (e_secs e)"
  shows "BallAndStick shp i x y z theta e =
     Some (\<lparr>c_id = i, c_soma = length (e_secs e), c_dend = Suc (length (e_secs e)),
            c_all = [length (e_secs e), Suc (length (e_secs e))], c_x = x, c_y = y, c_z = z\<rparr>,
           define_shape shp
             (e\<lparr>e_secs := e_secs e @ [soma_sec, dend_sec (length (e_secs e))],
                e_log := e_log e @ butlast (cell_calls (length (e_secs e)))\<rparr>))"
proof -
  let ?n = "length (e_secs e)"
  define e1 where "e1 = e\<lparr>e_secs := e_secs e @
           [\<lparr>sec_name = ''soma'', sec_parent = None, sec_L = Some (12.6157 * um),
             sec_diam = Some (12.6157 * um), sec_Ra = None, sec_cm = None, sec_nseg = 1,
             sec_mechs = [], sec_segvars = [], sec_pts = []\<rparr>,
            \<lparr>sec_name = ''dend'', sec_parent = Some (length (e_secs e)), sec_L = Some (200 * um),
             sec_diam = Some (1 * um), sec_Ra = None, sec_cm = None, sec_nseg = 1,
             sec_mechs = [], sec_segvars = [], sec_pts = []\<rparr>],
        e_log := e_log e @ take 7 (cell_calls (length (e_secs e)))\<rparr>"
  have m: "setup_morphology e = (?n, Suc ?n, e1)"
    by (simp add: setup_morphology_eq e1_def cell_calls_def)
  have wt: "wholetree e1 ?n = [?n, Suc ?n]"
    by (rule wholetree_new[OF ok]) (simp_all add: e1_def)
  define e2 where "e2 = setup_biophysics ?n (Suc ?n) [?n, Suc ?n] e1"
  have e2: "e2 = e\<lparr>e_secs := e_secs e @ [soma_sec, dend_sec ?n],
                    e_log := e_log e @ butlast (cell_calls ?n)\<rparr>"
    unfolding e2_def e1_def
    apply (simp add: setup_biophysics_def set_Ra_def set_cm_def insert_mech_def
        set_segvar_def segments_def logc_def upd_sec_def Let_def nth_append list_update_append
        upt_0_1 soma_sec_def dend_sec_def cell_calls_def)
    done
  have rot: "rotate_z c theta e2 = Some (c, e2)" if "c_all c = [?n, Suc ?n]" for c
    using that by (simp add: rotate_z_def rotate_sec_def n3d_def e2 nth_append soma_sec_def dend_sec_def)
  show ?thesis
    unfolding BallAndStick_def m
    by (simp add: wt Let_def e2_def[symmetric] rot) (simp add: e2)
qed

lemma fold_update_nth:
  "distinct js \<Longrightarrow> \<forall>j\<in>set js. j < length ps \<Longrightarrow>
     length (fold (\<lambda>j ps. ps[j := f (ps ! j)]) js ps) = length ps \<and>
     (\<forall>k<length ps. fold (\<lambda>j ps. ps[j := f (ps ! j)]) js ps ! k =
         (if k \<in> set js then f (ps ! k) else ps ! k))"
proof (induction js arbitrary: ps)
  case Nil
  then show ?case by simp
next
  case (Cons j js)
  let ?ps = "ps[j := f (ps ! j)]"
  have "distinct js" and "\<forall>i\<in>set js. i < length ?ps" and "j \<notin> set js" and "j < length ps"
    using Cons.prems by simp_all
  with Cons.IH[of ?ps] show ?case
    by (auto simp: nth_list_update)
qed

lemma fold_update_all:
  "fold (\<lambda>j ps. ps[j := f (ps ! j)]) [0..<length ps] ps = map f ps"
  using fold_update_nth[of "[0..<length ps]" ps f]
  by (intro nth_equalityI) simp_all

lemma rotate_pt_eq:
  assumes "i < length (sec_pts (e_secs e ! sec))"
  shows "rotate_pt theta sec i e =
     Some (e\<lparr>e_secs := (e_secs e)[sec := (e_secs e ! sec)
                 \<lparr>sec_pts := (sec_pts (e_secs e ! sec))
                    [i := planar_rotation theta (sec_pts (e_secs e ! sec) ! i)]\<rparr>],
             e_log := e_log e @ [Pt3dchange sec i]\<rparr>)"
  using assms
  by (simp add: rotate_pt_def x3d_def y3d_def z3d_def diam3d_def pt3d_at_def n3d_def pt3dchange_def
      logc_def upd_sec_def planar_rotation_def Let_def)

lemma rotate_pts_loop:
  assumes "sec < length (e_secs e)" and "\<forall>i\<in>set js. i < length (sec_pts (e_secs e ! sec))"
  shows "for_each (rotate_pt theta sec) js e =
     Some (e\<lparr>e_secs := (e_secs e)[sec := (e_secs e ! sec)
                 \<lparr>sec_pts := fold (\<lambda>j ps. ps[j := planar_rotation theta (ps ! j)]) js
                               (sec_pts (e_secs e ! sec))\<rparr>],
             e_log := e_log e @ map (Pt3dchange sec) js\<rparr>)"
  using assms
proof (induction js arbitrary: e)
  case Nil
  then show ?case by simp
next
  case (Cons j js)
  let ?e = "e\<lparr>e_secs := (e_secs e)[sec := (e_secs e ! sec)
                 \<lparr>sec_pts := (sec_pts (e_secs e ! sec))
                    [j := planar_rotation theta (sec_pts (e_secs e ! sec) ! j)]\<rparr>],
             e_log := e_log e @ [Pt3dchange sec j]\<rparr>"
  have step: "rotate_pt theta sec j e = Some ?e"
    using Cons.prems by (simp add: rotate_pt_eq)
  have "sec < length (e_secs ?e)" "\<forall>i\<in>set js. i < length (sec_pts (e_secs ?e ! sec))"
    using Cons.prems by simp_all
  from Cons.IH[OF this] show ?case
    using Cons.prems(1) by (simp add: step)
qed

lemma rotate_sec_eq:
  assumes "sec < length (e_secs e)"
  shows "rotate_sec theta sec e =
     Some (e\<lparr>e_secs := (e_secs e)[sec := (e_secs e ! sec)
                 \<lparr>sec_pts := map (planar_rotation theta) (sec_pts (e_secs e ! sec))\<rparr>],
             e_log := e_log e @ map (Pt3dchange sec) [0..<length (sec_pts (e_secs e ! sec))]\<rparr>)"
  using assms
  by (simp add: rotate_sec_def n3d_def rotate_pts_loop fold_update_all)

lemma rotate_secs_loop:
  assumes "distinct secs" and "\<forall>k\<in>set secs. k < length (e_secs e)"
  shows "\<exists>e'. for_each (rotate_sec theta) secs e = Some e' \<and>
           length (e_secs e') = length (e_secs e) \<and>
           (\<forall>k<length (e_secs e).
              e_secs e' ! k =
                (if k \<in> set secs
                 then (e_secs e ! k)\<lparr>sec_pts := map (planar_rotation theta) (sec_pts (e_secs e ! k))\<rparr>
                 else e_secs e ! k)) \<and>
           e_stims e' = e_stims e \<and> e_syns e' = e_syns e \<and> e_netcons e' = e_netcons e \<and>
           e_vecs e' = e_vecs e"
  using assms
proof (induction secs arbitrary: e)
  case Nil
  then show ?case by simp
next
  case (Cons s secs)
  let ?e = "e\<lparr>e_secs := (e_secs e)[s := (e_secs e ! s)
                 \<lparr>sec_pts := map (planar_rotation theta) (sec_pts (e_secs e ! s))\<rparr>],
             e_log := e_log e @ map (Pt3dchange s) [0..<length (sec_pts (e_secs e ! s))]\<rparr>"
  have s: "s < length (e_secs e)" "s \<notin> set secs" using Cons.prems by simp_all
  have step: "rotate_sec theta s e = Some ?e"
    using s by (simp add: rotate_sec_eq)
  have "distinct secs" "\<forall>k\<in>set secs. k < length (e_secs ?e)"
    using Cons.prems by simp_all
  from Cons.IH[OF this] obtain e' where e':
    "for_each (rotate_sec theta) secs ?e = Some e'"
    "length (e_secs e') = length (e_secs ?e)"
    "\<forall>k<length (e_secs ?e). e_secs e' ! k =
        (if k \<in> set secs
         then (e_secs ?e ! k)\<lparr>sec_pts := map (planar_rotation theta) (sec_pts (e_secs ?e ! k))\<rparr>
         else e_secs ?e ! k)"
    "e_stims e' = e_stims ?e" "e_syns e' = e_syns ?e" "e_netcons e' = e_netcons ?e"
    "e_vecs e' = e_vecs ?e"
    by blast
  have "\<forall>k<length (e_secs e). e_secs e' ! k =
          (if k \<in> set (s # secs)
           then (e_secs e ! k)\<lparr>sec_pts := map (planar_rotation theta) (sec_pts (e_secs e ! k))\<rparr>
           else e_secs e ! k)"
    using e'(3) s by (auto simp: nth_list_update)
  with e' step show ?case by simp
qed

lemma distinct_wholetree: "distinct (wholetree e k)"
  by (simp add: wholetree_def Let_def)

lemma wholetree_range: "j \<in> set (wholetree e k) \<Longrightarrow> j < length (e_secs e)"
  by (simp add: wholetree_def Let_def)

lemma fold_keeps:
  "(\<And>x s. g (f x s) = g s) \<Longrightarrow> g (fold f xs s) = g s"
  by (induction xs arbitrary: s) simp_all

lemma sec_ops_length [simp]:
  "length (e_secs (set_Ra k v e)) = length (e_secs e)"
  "length (e_secs (set_cm k v e)) = length (e_secs e)"
  "length (e_secs (insert_mech k m e)) = length (e_secs e)"
  "length (e_secs (set_segvar k seg var v e)) = length (e_secs e)"
  by (simp_all add: set_Ra_def set_cm_def insert_mech_def set_segvar_def logc_def upd_sec_def)

lemma setup_biophysics_length:
  "length (e_secs (setup_biophysics soma dend all e)) = length (e_secs e)"
  by (simp add: setup_biophysics_def Let_def fold_keeps[where g = "\<lambda>e. length (e_secs e)"])




lemma sec_static_cell [simp]:
  "sec_static soma_sec = soma_sec" "sec_static (dend_sec n) = dend_sec n"
  by (simp_all add: sec_static_def soma_sec_def dend_sec_def)

lemma create_loop_wf:
  assumes ok: "parents_ok (e_secs e)"
  shows "\<exists>e'. for_each (create_step shp N r) (map int [0..<m]) ([], e)
           = Some (map (mk_cell N r (length (e_secs e))) [0..<m], e') \<and>
      map sec_static (e_secs e') = map sec_static (e_secs e) @
         concat (map (\<lambda>i. [soma_sec, dend_sec (length (e_secs e) + 2 * i)]) [0..<m]) \<and>
      length (e_secs e') = length (e_secs e) + 2 * m \<and>
      e_stims e' = e_stims e \<and> e_syns e' = e_syns e \<and> e_netcons e' = e_netcons e \<and>
      e_vecs e' = e_vecs e \<and>
      e_log e' = e_log e @ concat (map (\<lambda>i. cell_calls (length (e_secs e) + 2 * i)) [0..<m]) \<and>
      parents_ok (e_secs e')"
proof (induction m)
  case 0
  show ?case using ok by simp
next
  case (Suc m)
  let ?n0 = "length (e_secs e)"
  from Suc obtain e' where ih:
    "for_each (create_step shp N r) (map int [0..<m]) ([], e)
           = Some (map (mk_cell N r ?n0) [0..<m], e')"
    "map sec_static (e_secs e') = map sec_static (e_secs e) @
         concat (map (\<lambda>i. [soma_sec, dend_sec (?n0 + 2 * i)]) [0..<m])"
    "length (e_secs e') = ?n0 + 2 * m"
    "e_stims e' = e_stims e" "e_syns e' = e_syns e" "e_netcons e' = e_netcons e"
    "e_vecs e' = e_vecs e"
    "e_log e' = e_log e @ concat (map (\<lambda>i. cell_calls (?n0 + 2 * i)) [0..<m])"
    and ok': "parents_ok (e_secs e')"
    by blast
  let ?e'' = "define_shape shp
             (e'\<lparr>e_secs := e_secs e' @ [soma_sec, dend_sec (length (e_secs e'))],
                e_log := e_log e' @ butlast (cell_calls (length (e_secs e')))\<rparr>)"
  have step: "create_step shp N r (int m) (map (mk_cell N r ?n0) [0..<m], e')
      = Some (map (mk_cell N r ?n0) [0..<Suc m], ?e'')"
    by (simp add: create_step_def Let_def BallAndStick_eq[OF ok'] ih(3) mk_cell_def theta_of_def)
  have "e_log ?e'' = e_log e @ concat (map (\<lambda>i. cell_calls (?n0 + 2 * i)) [0..<Suc m])"
    by (simp add: ih(8) ih(3) cell_calls_def)
  moreover have "map sec_static (e_secs ?e'') = map sec_static (e_secs e) @
         concat (map (\<lambda>i. [soma_sec, dend_sec (?n0 + 2 * i)]) [0..<Suc m])"
    by (simp add: ih(2) ih(3))
  moreover have "for_each (create_step shp N r) (map int [0..<Suc m]) ([], e)
      = Some (map (mk_cell N r ?n0) [0..<Suc m], ?e'')"
    using ih(1) step by (simp add: for_each_append)
  moreover have "parents_ok (e_secs ?e'')"
  proof -
    have "parents_ok (map sec_static (e_secs e') @
            [soma_sec, dend_sec (length (map sec_static (e_secs e')))])"
      using ok' by (intro parents_ok_cell) (simp add: parents_ok_static)
    then have "parents_ok (map sec_static (e_secs ?e''))" by simp
    then show ?thesis by (simp only: parents_ok_static)
  qed
  ultimately show ?case
    using ih(3-7) by (intro exI[of _ ?e'']) simp
qed

lemma upt_0_5: "[0..<5] = [0, 1, 2, 3, 4]"
  by (simp add: upt_rec)

lemma all_less_5: "(\<forall>i<5. P i) = (P (0::nat) \<and> P 1 \<and> P 2 \<and> P 3 \<and> P 4)"
proof -
  have iff: "\<And>i::nat. i < 5 \<longleftrightarrow> i = 0 \<or> i = 1 \<or> i = 2 \<or> i = 3 \<or> i = 4" by arith
  show ?thesis unfolding iff by blast
qed

lemma engine_eqI:
  "e_stims e = a \<Longrightarrow> e_syns e = b \<Longrightarrow> e_netcons e = c \<Longrightarrow> e_vecs e = d \<Longrightarrow> e_log e = l \<Longrightarrow>
   e = \<lparr>e_secs = e_secs e, e_stims = a, e_syns = b, e_netcons = c, e_vecs = d, e_log = l\<rparr>"
  by (cases e) simp

lemma cells_built:
  "\<exists>S. create_n_BallAndStick shp 5 50 (logc (LoadFile ''stdrun.hoc'') e0) =
          Some (map (mk_cell 5 50 0) [0, 1, 2, 3, 4],
                \<lparr>e_secs = S, e_stims = [], e_syns = [], e_netcons = [], e_vecs = [],
                 e_log = LoadFile ''stdrun.hoc'' # concat (map cell_calls [0, 2, 4, 6, 8])\<rparr>) \<and>
       map sec_static S = built_secs"
proof -
  let ?e = "logc (LoadFile ''stdrun.hoc'') e0"
  have ok: "parents_ok (e_secs ?e)" by (simp add: logc_def e0_def parents_ok_def)
  from create_loop_wf[OF ok, of shp 5 50 5] obtain e' where e':
    "for_each (create_step shp 5 50) (map int [0..<5]) ([], ?e)
        = Some (map (mk_cell 5 50 (length (e_secs ?e))) [0..<5], e')"
    "map sec_static (e_secs e') = map sec_static (e_secs ?e) @
       concat (map (\<lambda>i. [soma_sec, dend_sec (length (e_secs ?e) + 2 * i)]) [0..<5])"
    "e_stims e' = e_stims ?e" "e_syns e' = e_syns ?e" "e_netcons e' = e_netcons ?e"
    "e_vecs e' = e_vecs ?e"
    "e_log e' = e_log ?e @ concat (map (\<lambda>i. cell_calls (length (e_secs ?e) + 2 * i)) [0..<5])"
    by blast
  have n0: "length (e_secs ?e) = 0" "e_secs ?e = []" by (simp_all add: logc_def e0_def)
  have "e' = \<lparr>e_secs = e_secs e', e_stims = [], e_syns = [], e_netcons = [], e_vecs = [],
                 e_log = LoadFile ''stdrun.hoc'' # concat (map cell_calls [0, 2, 4, 6, 8])\<rparr>"
    by (rule engine_eqI) (simp_all add: e'(3-7) n0 upt_0_5, simp_all add: logc_def e0_def)
  moreover have "map sec_static (e_secs e') = built_secs"
    by (simp add: e'(2) n0 upt_0_5 built_secs_def)
  moreover have "create_n_BallAndStick shp 5 50 ?e = Some (map (mk_cell 5 50 0) [0, 1, 2, 3, 4], e')"
    using e'(1) by (simp add: create_n_BallAndStick_def range_py_def n0 upt_0_5)
  ultimately show ?thesis by metis
qed

lemma setup_network_eq:
  assumes "c_soma c0 = 0" "c_dend c0 = 1" "c_soma c1 = 2" "c_dend c1 = 3" "c_soma c2 = 4"
    "c_dend c2 = 5" "c_soma c3 = 6" "c_dend c3 = 7" "c_soma c4 = 8" "c_dend c4 = 9"
  shows "setup_network [c0, c1, c2, c3, c4]
     \<lparr>e_secs = S, e_stims = [], e_syns = [], e_netcons = [], e_vecs = [],
      e_log = LoadFile ''stdrun.hoc'' # concat (map cell_calls [0, 2, 4, 6, 8])\<rparr> =
     Some (built_globals\<lparr>g_my_cells := [c0, c1, c2, c3, c4], g_recording_cell := c0\<rparr>,
           built_engine S setup_log)"
  by (simp add: setup_network_def py_index_def make_stimulus_def make_recordings_def make_ring_def
      ring_step_def make_spike_times_def NetStim_def ExpSyn_def NetCon_def set_number_def
      set_start_def Vector_def record_vec_def netcon_record_def set_delay_def set_weight0_def
      set_tau_def logc_def Let_def assms built_globals_def built_engine_def setup_log_def
      eval_nat_numeral)

lemma script_setup_result:
  "\<exists>S. script_setup shp = Some (built_globals, built_engine S setup_log) \<and>
       map sec_static S = built_secs"
proof -
  from cells_built[of shp] obtain S where S:
    "create_n_BallAndStick shp 5 50 (logc (LoadFile ''stdrun.hoc'') e0) =
          Some (map (mk_cell 5 50 0) [0, 1, 2, 3, 4],
                \<lparr>e_secs = S, e_stims = [], e_syns = [], e_netcons = [], e_vecs = [],
                 e_log = LoadFile ''stdrun.hoc'' # concat (map cell_calls [0, 2, 4, 6, 8])\<rparr>)"
    "map sec_static S = built_secs"
    by blast
  have "setup_network (map (mk_cell 5 50 0) [0, 1, 2, 3, 4])
          \<lparr>e_secs = S, e_stims = [], e_syns = [], e_netcons = [], e_vecs = [],
           e_log = LoadFile ''stdrun.hoc'' # concat (map cell_calls [0, 2, 4, 6, 8])\<rparr>
        = Some (built_globals, built_engine S setup_log)"
    using setup_network_eq[of "mk_cell 5 50 0 0" "mk_cell 5 50 0 1" "mk_cell 5 50 0 2"
        "mk_cell 5 50 0 3" "mk_cell 5 50 0 4" S]
    by (simp add: mk_cell_def built_globals_def)
  then have "script_setup shp = Some (built_globals, built_engine S setup_log)"
    unfolding script_setup_def Let_def S(1) by simp
  with S(2) show ?thesis by blast
qed

lemma run_and_plot_eq:
  "run_and_plot built_globals (built_engine S L) = built_engine S (L @ run_log)"
  by (simp add: run_and_plot_def finitialize_def continuerun_def plot_step_def logc_def Let_def
      built_globals_def built_engine_def run_log_def)

lemma script_result:
  "\<exists>S. script shp = Some (built_globals, built_engine S (setup_log @ run_log)) \<and>
       map sec_static S = built_secs"
  using script_setup_result[of shp] by (auto simp: script_def run_and_plot_eq)

lemma ex_half: "\<exists>x::real. x * 2 = 1"
  by (rule exI[of _ "1 / 2"]) simp

lemma ex_halve: "\<exists>x::real. x * 2 = y"
  by (rule exI[of _ "y / 2"]) simp

lemma built_secs_fields:
  assumes "map sec_static S = built_secs" and "k < 10"
  shows "sec_name (S ! k) = sec_name (built_secs ! k)"
    and "sec_parent (S ! k) = sec_parent (built_secs ! k)"
    and "sec_L (S ! k) = sec_L (built_secs ! k)"
    and "sec_diam (S ! k) = sec_diam (built_secs ! k)"
proof -
  have "length (map sec_static S) = length built_secs" using assms(1) by simp
  then have len: "length S = 10" by (simp add: built_secs_def)
  have "map sec_static S ! k = built_secs ! k" using assms(1) by simp
  then have eq: "sec_static (S ! k) = built_secs ! k" using assms(2) len by simp
  show "sec_name (S ! k) = sec_name (built_secs ! k)"
    and "sec_parent (S ! k) = sec_parent (built_secs ! k)"
    and "sec_L (S ! k) = sec_L (built_secs ! k)"
    and "sec_diam (S ! k) = sec_diam (built_secs ! k)"
    unfolding eq[symmetric] by (simp_all add: sec_static_def)
qed

lemma built_secs_length: "map sec_static S = built_secs \<Longrightarrow> length S = 10"
proof -
  assume "map sec_static S = built_secs"
  then have "length (map sec_static S) = length built_secs" by simp
  then show ?thesis by (simp add: built_secs_def)
qed


lemma BallAndStick_engine_ignores_position:
  assumes "parents_ok (e_secs e)"
  shows "map_option snd (BallAndStick shp i x y z theta e) =
         map_option snd (BallAndStick shp i' x' y' z' theta' e)"
  by (simp add: BallAndStick_eq[OF assms])

lemma BallAndStick_all:
  assumes "BallAndStick shp i x y z theta e = Some (c, e')"
  shows "distinct (c_all c) \<and> (\<forall>k\<in>set (c_all c). k < length (e_secs e'))"
proof -
  obtain soma dend e1 where m: "setup_morphology e = (soma, dend, e1)"
    by (metis prod_cases3)
  define e2 where "e2 = setup_biophysics soma dend (wholetree e1 soma) e1"
  define c0 where "c0 = \<lparr>c_id = i, c_soma = soma, c_dend = dend, c_all = wholetree e1 soma,
               c_x = x, c_y = y, c_z = z\<rparr>"
  have d: "distinct (c_all c0)" by (simp add: c0_def distinct_wholetree)
  have v: "\<forall>k\<in>set (c_all c0). k < length (e_secs e2)"
    by (auto simp: c0_def e2_def setup_biophysics_length dest: wholetree_range)
  from rotate_secs_loop[OF d v, of theta] obtain e3 where
    r: "for_each (rotate_sec theta) (c_all c0) e2 = Some e3"
    and l: "length (e_secs e3) = length (e_secs e2)"
    by blast
  have "rotate_z c0 theta e2 = Some (c0, e3)"
    using r by (simp add: rotate_z_def)
  then have "BallAndStick shp i x y z theta e = Some (c0, define_shape shp e3)"
    by (simp add: BallAndStick_def m Let_def e2_def[symmetric] c0_def[symmetric])
  with assms have "c = c0" "e' = define_shape shp e3" by simp_all
  with d v l show ?thesis by simp
qed

section \<open>The claims\<close>

text \<open>
  In every theorem about the whole script, \<open>shp\<close> is the layout that the engine's
  \<^verbatim>\<open>define_shape\<close> computes; the theorems hold for every layout. \<open>script shp\<close> is
  the state after the last line of the script, \<open>script_setup shp\<close> the state after line 117.
  A count over the objects of the engine is a \<open>filter\<close> over all indices of a table.
\<close>

text \<open>
  C1. The loop of lines 105 to 113 wires the five cells into a ring. The engine holds six
  synapses: the synapse of the stimulus and the five of \<^verbatim>\<open>syns\<close>. For every \<open>i < 5\<close>,
  among all synapses of the engine but that of the stimulus, \<^verbatim>\<open>syns[i]\<close> is the only one on
  the dendrite of cell \<open>(i + 1) mod 5\<close>, and it sits at 0.5; among all connections of the
  engine, \<^verbatim>\<open>netcons[i]\<close> is the only one whose source is on the soma of cell \<open>i\<close> and the
  only one whose target is \<^verbatim>\<open>syns[i]\<close>; its source is the membrane voltage at 0.5 of that
  soma. The connections of the engine whose source is a membrane voltage are exactly
  those of \<^verbatim>\<open>netcons\<close>, and the script calls \<^verbatim>\<open>ExpSyn\<close> and \<^verbatim>\<open>NetCon\<close> six times each:
  once for the stimulus and once for each step of the loop.
\<close>

theorem ring_wiring:
  "\<exists>g e. script shp = Some (g, e) \<and> length (g_my_cells g) = 5 \<and>
     length (g_syns g) = 5 \<and> length (g_netcons g) = 5 \<and>
     length (e_syns e) = 6 \<and> length (e_netcons e) = 6 \<and>
     g_syn g < length (e_syns e) \<and> g_syn g \<notin> set (g_syns g) \<and>
     filter (\<lambda>k. k \<noteq> g_syn g) [0..<length (e_syns e)] = g_syns g \<and>
     (\<forall>i<5. syn_sec (e_syns e ! (g_syns g ! i)) = c_dend (g_my_cells g ! ((i + 1) mod 5)) \<and>
            syn_loc (e_syns e ! (g_syns g ! i)) = 0.5 \<and>
            nc_src (e_netcons e ! (g_netcons g ! i)) = SrcVoltage (c_soma (g_my_cells g ! i)) 0.5 \<and>
            nc_target (e_netcons e ! (g_netcons g ! i)) = g_syns g ! i \<and>
            filter (\<lambda>k. syn_sec (e_syns e ! k) = c_dend (g_my_cells g ! ((i + 1) mod 5))) (g_syns g)
              = [g_syns g ! i] \<and>
            filter (\<lambda>k. k \<noteq> g_syn g \<and>
                        syn_sec (e_syns e ! k) = c_dend (g_my_cells g ! ((i + 1) mod 5)))
              [0..<length (e_syns e)] = [g_syns g ! i] \<and>
            filter (\<lambda>k. \<exists>x. nc_src (e_netcons e ! k) = SrcVoltage (c_soma (g_my_cells g ! i)) x)
              [0..<length (e_netcons e)] = [g_netcons g ! i] \<and>
            filter (\<lambda>k. nc_target (e_netcons e ! k) = g_syns g ! i)
              [0..<length (e_netcons e)] = [g_netcons g ! i]) \<and>
     filter (\<lambda>k. \<exists>s x. nc_src (e_netcons e ! k) = SrcVoltage s x) [0..<length (e_netcons e)]
       = g_netcons g \<and>
     filter (\<lambda>c. \<exists>k. c = NewExpSyn k) (e_log e) = map NewExpSyn (g_syn g # g_syns g) \<and>
     filter (\<lambda>c. \<exists>k. c = NewNetCon k) (e_log e) = map NewNetCon (g_ncstim g # g_netcons g)"
proof -
  obtain S where S: "script shp = Some (built_globals, built_engine S (setup_log @ run_log))"
    using script_result by blast
  show ?thesis
    apply (rule exI[of _ built_globals], rule exI[of _ "built_engine S (setup_log @ run_log)"])
    apply (simp add: S built_globals_def built_engine_def all_less_5 mk_cell_def upt_rec ex_half
        setup_log_def run_log_def cell_calls_def)
    done
qed

text \<open>
  The ring closes: at \<open>i = 4\<close> the target is the dendrite of cell 0, where \<^verbatim>\<open>syns[4]\<close> is
  the only synapse but that of the stimulus.
\<close>

theorem ring_wiring_witness:
  "\<exists>g e. script (\<lambda>_ _. []) = Some (g, e) \<and>
     syn_sec (e_syns e ! (g_syns g ! 4)) = c_dend (g_my_cells g ! 0) \<and>
     nc_src (e_netcons e ! (g_netcons g ! 4)) = SrcVoltage (c_soma (g_my_cells g ! 4)) 0.5 \<and>
     nc_target (e_netcons e ! (g_netcons g ! 4)) = g_syns g ! 4 \<and>
     filter (\<lambda>k. k \<noteq> g_syn g \<and> syn_sec (e_syns e ! k) = c_dend (g_my_cells g ! 0))
       [0..<length (e_syns e)] = [g_syns g ! 4]"
proof -
  from ring_wiring[of "\<lambda>_ _. []"] obtain g e where
    s: "script (\<lambda>_ _. []) = Some (g, e)" and
    r: "\<forall>i<5. syn_sec (e_syns e ! (g_syns g ! i)) = c_dend (g_my_cells g ! ((i + 1) mod 5)) \<and>
            syn_loc (e_syns e ! (g_syns g ! i)) = 0.5 \<and>
            nc_src (e_netcons e ! (g_netcons g ! i)) = SrcVoltage (c_soma (g_my_cells g ! i)) 0.5 \<and>
            nc_target (e_netcons e ! (g_netcons g ! i)) = g_syns g ! i \<and>
            filter (\<lambda>k. syn_sec (e_syns e ! k) = c_dend (g_my_cells g ! ((i + 1) mod 5))) (g_syns g)
              = [g_syns g ! i] \<and>
            filter (\<lambda>k. k \<noteq> g_syn g \<and>
                        syn_sec (e_syns e ! k) = c_dend (g_my_cells g ! ((i + 1) mod 5)))
              [0..<length (e_syns e)] = [g_syns g ! i] \<and>
            filter (\<lambda>k. \<exists>x. nc_src (e_netcons e ! k) = SrcVoltage (c_soma (g_my_cells g ! i)) x)
              [0..<length (e_netcons e)] = [g_netcons g ! i] \<and>
            filter (\<lambda>k. nc_target (e_netcons e ! k) = g_syns g ! i)
              [0..<length (e_netcons e)] = [g_netcons g ! i]"
    by (elim exE conjE) (rule that, assumption+)
  have "(4::nat) < 5" by simp
  with r have "syn_sec (e_syns e ! (g_syns g ! 4)) = c_dend (g_my_cells g ! ((4 + 1) mod 5)) \<and>
     nc_src (e_netcons e ! (g_netcons g ! 4)) = SrcVoltage (c_soma (g_my_cells g ! 4)) 0.5 \<and>
     nc_target (e_netcons e ! (g_netcons g ! 4)) = g_syns g ! 4 \<and>
     filter (\<lambda>k. k \<noteq> g_syn g \<and> syn_sec (e_syns e ! k) = c_dend (g_my_cells g ! ((4 + 1) mod 5)))
       [0..<length (e_syns e)] = [g_syns g ! 4]"
    by blast
  with s show ?thesis by (intro exI[of _ g] exI[of _ e]) simp
qed

text \<open>
  C2. The engine holds ten sections, two for each of the five cells. Every cell consists
  of exactly its soma and its dendrite, two different sections; the dendrite is connected
  to the soma and the soma to nothing; the soma has length and diameter \<open>12.6157 * um\<close>,
  the dendrite length \<open>200 * um\<close> and diameter \<open>1 * um\<close>. The section lists of the cells,
  one after the other, enumerate the sections of the engine without repetition: each
  section belongs to exactly one cell. The script calls \<^verbatim>\<open>Section\<close> and \<^verbatim>\<open>connect\<close> for these
  sections only. \<open>BallAndStick_eq\<close> gives the same two sections for a cell built in any
  engine whose parent links are in range.
\<close>

theorem cell_morphology:
  "\<exists>g e. script shp = Some (g, e) \<and> length (g_my_cells g) = 5 \<and> length (e_secs e) = 10 \<and>
     (\<forall>c\<in>set (g_my_cells g).
        c_all c = [c_soma c, c_dend c] \<and> c_soma c \<noteq> c_dend c \<and>
        c_soma c < length (e_secs e) \<and> c_dend c < length (e_secs e) \<and>
        sec_name (e_secs e ! c_soma c) = ''soma'' \<and>
        sec_name (e_secs e ! c_dend c) = ''dend'' \<and>
        sec_parent (e_secs e ! c_soma c) = None \<and>
        sec_parent (e_secs e ! c_dend c) = Some (c_soma c) \<and>
        sec_L (e_secs e ! c_soma c) = Some (12.6157 * um) \<and>
        sec_diam (e_secs e ! c_soma c) = Some (12.6157 * um) \<and>
        sec_L (e_secs e ! c_soma c) = sec_diam (e_secs e ! c_soma c) \<and>
        sec_L (e_secs e ! c_dend c) = Some (200 * um) \<and>
        sec_diam (e_secs e ! c_dend c) = Some (1 * um)) \<and>
     concat (map c_all (g_my_cells g)) = [0..<length (e_secs e)] \<and>
     filter (\<lambda>c. \<exists>k name. c = NewSection k name) (e_log e) =
       concat (map (\<lambda>c. [NewSection (c_soma c) ''soma'', NewSection (c_dend c) ''dend''])
                 (g_my_cells g)) \<and>
     filter (\<lambda>c. \<exists>a b. c = Connect a b) (e_log e) =
       map (\<lambda>c. Connect (c_dend c) (c_soma c)) (g_my_cells g)"
proof -
  obtain S where S: "script shp = Some (built_globals, built_engine S (setup_log @ run_log))"
    and st: "map sec_static S = built_secs"
    using script_result by blast
  note f = built_secs_fields[OF st]
  show ?thesis
    apply (rule exI[of _ built_globals], rule exI[of _ "built_engine S (setup_log @ run_log)"])
    apply (simp add: S built_secs_length[OF st] built_globals_def built_engine_def mk_cell_def
        upt_rec f built_secs_def soma_sec_def dend_sec_def setup_log_def run_log_def cell_calls_def)
    done
qed

text \<open>
  The first cell of the list is one of the cells: its soma has the stated length and its
  dendrite is connected to its soma.
\<close>

theorem cell_morphology_witness:
  "\<exists>g e. script (\<lambda>_ _. []) = Some (g, e) \<and>
     c_all (g_my_cells g ! 0) = [c_soma (g_my_cells g ! 0), c_dend (g_my_cells g ! 0)] \<and>
     sec_L (e_secs e ! c_soma (g_my_cells g ! 0)) = Some (12.6157 * um) \<and>
     sec_parent (e_secs e ! c_dend (g_my_cells g ! 0)) = Some (c_soma (g_my_cells g ! 0))"
proof -
  from cell_morphology[of "\<lambda>_ _. []"] obtain g e where
    s: "script (\<lambda>_ _. []) = Some (g, e)" and l: "length (g_my_cells g) = 5" and
    r: "\<forall>c\<in>set (g_my_cells g).
        c_all c = [c_soma c, c_dend c] \<and> c_soma c \<noteq> c_dend c \<and>
        c_soma c < length (e_secs e) \<and> c_dend c < length (e_secs e) \<and>
        sec_name (e_secs e ! c_soma c) = ''soma'' \<and>
        sec_name (e_secs e ! c_dend c) = ''dend'' \<and>
        sec_parent (e_secs e ! c_soma c) = None \<and>
        sec_parent (e_secs e ! c_dend c) = Some (c_soma c) \<and>
        sec_L (e_secs e ! c_soma c) = Some (12.6157 * um) \<and>
        sec_diam (e_secs e ! c_soma c) = Some (12.6157 * um) \<and>
        sec_L (e_secs e ! c_soma c) = sec_diam (e_secs e ! c_soma c) \<and>
        sec_L (e_secs e ! c_dend c) = Some (200 * um) \<and>
        sec_diam (e_secs e ! c_dend c) = Some (1 * um)"
    by (elim exE conjE) (rule that, assumption+)
  have "g_my_cells g ! 0 \<in> set (g_my_cells g)" using l by simp
  with r s show ?thesis by (intro exI[of _ g] exI[of _ e]) simp
qed

text \<open>
  C3. The script creates one \<^verbatim>\<open>NetStim\<close>. Among all connections of the engine, \<^verbatim>\<open>ncstim\<close> is
  the only one whose source is a stimulus; its target is the synapse \<^verbatim>\<open>syn_\<close>, which sits at
  0.5 on the dendrite of \<^verbatim>\<open>my_cells[0]\<close>. That cell is the only cell with id 0 and the only
  cell that owns the section of the synapse. No connection from a stimulus ends on a
  section of another cell.
\<close>

theorem one_stimulus:
  "\<exists>g e. script shp = Some (g, e) \<and>
     length (e_stims e) = 1 \<and> g_stim g = 0 \<and>
     filter (\<lambda>c. \<exists>k. c = NewNetStim k) (e_log e) = [NewNetStim (g_stim g)] \<and>
     filter (\<lambda>k. \<exists>s. nc_src (e_netcons e ! k) = SrcStim s) [0..<length (e_netcons e)]
       = [g_ncstim g] \<and>
     nc_src (e_netcons e ! g_ncstim g) = SrcStim (g_stim g) \<and>
     nc_target (e_netcons e ! g_ncstim g) = g_syn g \<and>
     g_syn g < length (e_syns e) \<and>
     syn_sec (e_syns e ! g_syn g) = c_dend (g_my_cells g ! 0) \<and>
     syn_loc (e_syns e ! g_syn g) = 0.5 \<and>
     c_id (g_my_cells g ! 0) = 0 \<and>
     filter (\<lambda>c. c_id c = 0) (g_my_cells g) = [g_my_cells g ! 0] \<and>
     filter (\<lambda>c. syn_sec (e_syns e ! g_syn g) \<in> set (c_all c)) (g_my_cells g)
       = [g_my_cells g ! 0] \<and>
     filter (\<lambda>k. \<exists>s. nc_src (e_netcons e ! k) = SrcStim s \<and>
                  syn_sec (e_syns e ! nc_target (e_netcons e ! k)) \<notin> set (c_all (g_my_cells g ! 0)))
       [0..<length (e_netcons e)] = []"
proof -
  obtain S where S: "script shp = Some (built_globals, built_engine S (setup_log @ run_log))"
    using script_result by blast
  show ?thesis
    apply (rule exI[of _ built_globals], rule exI[of _ "built_engine S (setup_log @ run_log)"])
    apply (simp add: S built_globals_def built_engine_def mk_cell_def upt_rec
        setup_log_def run_log_def cell_calls_def)
    done
qed

text \<open>
  At a concrete layout: one stimulus, connected to the synapse on the dendrite of the first
  cell.
\<close>

theorem one_stimulus_witness:
  "\<exists>g e. script (\<lambda>_ _. []) = Some (g, e) \<and> length (e_stims e) = 1 \<and>
     nc_src (e_netcons e ! g_ncstim g) = SrcStim (g_stim g) \<and>
     syn_sec (e_syns e ! g_syn g) = c_dend (g_my_cells g ! 0)"
  using one_stimulus[of "\<lambda>_ _. []"] by (elim exE conjE) (intro exI conjI, assumption+)




text \<open>
  C5, as amended. The log of the script splits in two: in the first part no synapse and
  no connection is created, and every section of every cell is created there; in the
  second part no call of the constructor of a cell occurs. So every cell is complete before
  the first synapse or connection is made. The connections with a cell as source are
  exactly the five of \<^verbatim>\<open>netcons\<close>: \<^verbatim>\<open>netcons[i]\<close> goes from the soma of \<^verbatim>\<open>my_cells[i]\<close> to the
  synapse \<^verbatim>\<open>syns[i]\<close> on the dendrite of \<^verbatim>\<open>my_cells[(i + 1) mod 5]\<close>, a different cell with
  different sections. The only other connection is \<^verbatim>\<open>ncstim\<close>: its source is the stimulus,
  not a cell, and its target synapse is on the dendrite of \<^verbatim>\<open>my_cells[0]\<close>.
\<close>

theorem ring_connections_between_built_cells:
  "\<exists>g e L1 L2. script shp = Some (g, e) \<and> length (g_my_cells g) = 5 \<and>
     e_log e = L1 @ L2 \<and>
     (\<forall>c\<in>set L1. \<forall>k. c \<noteq> NewExpSyn k \<and> c \<noteq> NewNetCon k) \<and>
     (\<forall>c\<in>set L2. \<not> builds_cell c) \<and>
     (\<forall>c\<in>set (g_my_cells g). \<forall>k\<in>set (c_all c).
         k < length (e_secs e) \<and> (\<exists>name. NewSection k name \<in> set L1)) \<and>
     filter (\<lambda>k. \<exists>s x. nc_src (e_netcons e ! k) = SrcVoltage s x) [0..<length (e_netcons e)]
       = g_netcons g \<and>
     filter (\<lambda>k. k \<noteq> g_syn g) [0..<length (e_syns e)] = g_syns g \<and>
     (\<forall>i<5. nc_src (e_netcons e ! (g_netcons g ! i)) = SrcVoltage (c_soma (g_my_cells g ! i)) 0.5 \<and>
            nc_sec (e_netcons e ! (g_netcons g ! i)) = Some (c_soma (g_my_cells g ! i)) \<and>
            nc_target (e_netcons e ! (g_netcons g ! i)) = g_syns g ! i \<and>
            syn_sec (e_syns e ! (g_syns g ! i)) = c_dend (g_my_cells g ! ((i + 1) mod 5)) \<and>
            (i + 1) mod 5 \<noteq> i \<and>
            c_id (g_my_cells g ! i) \<noteq> c_id (g_my_cells g ! ((i + 1) mod 5)) \<and>
            set (c_all (g_my_cells g ! i)) \<inter> set (c_all (g_my_cells g ! ((i + 1) mod 5))) = {}) \<and>
     filter (\<lambda>k. \<exists>s. nc_src (e_netcons e ! k) = SrcStim s) [0..<length (e_netcons e)]
       = [g_ncstim g] \<and>
     nc_src (e_netcons e ! g_ncstim g) = SrcStim (g_stim g) \<and>
     nc_target (e_netcons e ! g_ncstim g) = g_syn g \<and>
     syn_sec (e_syns e ! g_syn g) = c_dend (g_my_cells g ! 0)"
proof -
  obtain S where S: "script shp = Some (built_globals, built_engine S (setup_log @ run_log))"
    and st: "map sec_static S = built_secs"
    using script_result by blast
  show ?thesis
    apply (rule exI[of _ built_globals], rule exI[of _ "built_engine S (setup_log @ run_log)"],
           rule exI[of _ "take 101 setup_log"], rule exI[of _ "drop 101 setup_log @ run_log"])
    apply (simp add: S built_secs_length[OF st] built_globals_def built_engine_def mk_cell_def
        all_less_5 upt_rec ex_half setup_log_def run_log_def cell_calls_def)
    done
qed

text \<open>
  The last connection of the ring goes from the soma of cell 4 to the dendrite of cell 0,
  two cells with different ids.
\<close>

theorem ring_connections_witness:
  "\<exists>g e. script (\<lambda>_ _. []) = Some (g, e) \<and>
     nc_src (e_netcons e ! (g_netcons g ! 4)) = SrcVoltage (c_soma (g_my_cells g ! 4)) 0.5 \<and>
     syn_sec (e_syns e ! (g_syns g ! 4)) = c_dend (g_my_cells g ! 0) \<and>
     c_id (g_my_cells g ! 4) \<noteq> c_id (g_my_cells g ! 0)"
proof -
  from ring_connections_between_built_cells[of "\<lambda>_ _. []"] obtain g e where
    s: "script (\<lambda>_ _. []) = Some (g, e)" and
    r: "\<forall>i<5. nc_src (e_netcons e ! (g_netcons g ! i)) = SrcVoltage (c_soma (g_my_cells g ! i)) 0.5 \<and>
            nc_sec (e_netcons e ! (g_netcons g ! i)) = Some (c_soma (g_my_cells g ! i)) \<and>
            nc_target (e_netcons e ! (g_netcons g ! i)) = g_syns g ! i \<and>
            syn_sec (e_syns e ! (g_syns g ! i)) = c_dend (g_my_cells g ! ((i + 1) mod 5)) \<and>
            (i + 1) mod 5 \<noteq> i \<and>
            c_id (g_my_cells g ! i) \<noteq> c_id (g_my_cells g ! ((i + 1) mod 5)) \<and>
            set (c_all (g_my_cells g ! i)) \<inter> set (c_all (g_my_cells g ! ((i + 1) mod 5))) = {}"
    by (elim exE conjE) (rule that, assumption+)
  have "(4::nat) < 5" by simp
  with r have "nc_src (e_netcons e ! (g_netcons g ! 4)) = SrcVoltage (c_soma (g_my_cells g ! 4)) 0.5 \<and>
     syn_sec (e_syns e ! (g_syns g ! 4)) = c_dend (g_my_cells g ! ((4 + 1) mod 5)) \<and>
     c_id (g_my_cells g ! 4) \<noteq> c_id (g_my_cells g ! ((4 + 1) mod 5))"
    by blast
  with s show ?thesis by (intro exI[of _ g] exI[of _ e]) simp
qed

text \<open>
  C5 as stated fails for the connection \<^verbatim>\<open>ncstim\<close> and its synapse \<^verbatim>\<open>syn_\<close>, which the script
  creates in lines 89 and 93: the source of \<^verbatim>\<open>ncstim\<close> is the stimulus 0, so it has no source
  cell.
\<close>

theorem stimulus_connection_has_no_source_cell:
  "map_option (\<lambda>(g, e). (g_ncstim g < length (e_netcons e), nc_src (e_netcons e ! g_ncstim g)))
     (script (\<lambda>_ _. [])) = Some (True, SrcStim 0)"
proof -
  obtain S where S: "script (\<lambda>_ _. []) = Some (built_globals, built_engine S (setup_log @ run_log))"
    using script_result by blast
  show ?thesis
    by (simp add: S built_globals_def built_engine_def)
qed

text \<open>
  C6. From the end of the setup (line 117) to the end of the script, the variables of the
  script and the five tables of the engine (sections, stimuli, synapses, connections,
  vectors, each with every parameter that the script has assigned) do not change. The
  calls that the script makes after the setup are \<^verbatim>\<open>finitialize\<close>, one \<^verbatim>\<open>continuerun\<close>,
  \<^verbatim>\<open>as_numpy\<close> and calls of the plotting library, and no other: no call that creates an
  object, assigns a weight or a delay, or removes anything.
\<close>

theorem frozen_after_setup:
  "\<exists>g e e' L. script_setup shp = Some (g, e) \<and> script shp = Some (g, e') \<and>
     e_secs e' = e_secs e \<and> e_stims e' = e_stims e \<and> e_syns e' = e_syns e \<and>
     e_netcons e' = e_netcons e \<and> e_vecs e' = e_vecs e \<and>
     e_log e' = e_log e @ L \<and>
     filter (\<lambda>c. \<exists>t. c = Continuerun t) L = [Continuerun (100 * ms)] \<and>
     (\<forall>c\<in>set L. (\<exists>v. c = Finitialize v) \<or> (\<exists>t. c = Continuerun t) \<or> (\<exists>v. c = AsNumpy v) \<or>
                  c = PltFigure \<or> (\<exists>v a b. c = PltVlines v a b) \<or> (\<exists>s. c = PltXlabel s) \<or>
                  (\<exists>s. c = PltYlabel s) \<or> c = PltShow) \<and>
     length (g_my_cells g) = 5 \<and> length (g_syns g) = 5 \<and> length (g_netcons g) = 5 \<and>
     length (e_secs e') = 10 \<and> length (e_syns e') = 6 \<and> length (e_netcons e') = 6"
proof -
  obtain S where S: "script_setup shp = Some (built_globals, built_engine S setup_log)"
      "map sec_static S = built_secs"
    using script_setup_result by blast
  have s2: "script shp = Some (built_globals, built_engine S (setup_log @ run_log))"
    using S(1) by (simp add: script_def run_and_plot_eq)
  show ?thesis
    apply (rule exI[of _ built_globals], rule exI[of _ "built_engine S setup_log"],
           rule exI[of _ "built_engine S (setup_log @ run_log)"], rule exI[of _ run_log])
    apply (simp add: S s2 built_secs_length[OF S(2)] built_globals_def built_engine_def
        run_log_def ex_halve)
    done
qed

text \<open>
  The call of the integrator is one of the calls after the setup, and it is of an allowed
  kind.
\<close>

theorem frozen_after_setup_witness:
  "\<exists>g e e' L. script_setup (\<lambda>_ _. []) = Some (g, e) \<and> script (\<lambda>_ _. []) = Some (g, e') \<and>
     e_netcons e' = e_netcons e \<and> e_log e' = e_log e @ L \<and>
     Continuerun (100 * ms) \<in> set L \<and>
     ((\<exists>v. Continuerun (100 * ms) = Finitialize v) \<or> (\<exists>t. Continuerun (100 * ms) = Continuerun t) \<or>
      (\<exists>v. Continuerun (100 * ms) = AsNumpy v) \<or> Continuerun (100 * ms) = PltFigure \<or>
      (\<exists>v a b. Continuerun (100 * ms) = PltVlines v a b) \<or>
      (\<exists>s. Continuerun (100 * ms) = PltXlabel s) \<or>
      (\<exists>s. Continuerun (100 * ms) = PltYlabel s) \<or> Continuerun (100 * ms) = PltShow)"
proof -
  from frozen_after_setup[of "\<lambda>_ _. []"] obtain g e e' L where
    s: "script_setup (\<lambda>_ _. []) = Some (g, e)" "script (\<lambda>_ _. []) = Some (g, e')"
      "e_netcons e' = e_netcons e" "e_log e' = e_log e @ L" and
    f: "filter (\<lambda>c. \<exists>t. c = Continuerun t) L = [Continuerun (100 * ms)]" and
    r: "\<forall>c\<in>set L. (\<exists>v. c = Finitialize v) \<or> (\<exists>t. c = Continuerun t) \<or> (\<exists>v. c = AsNumpy v) \<or>
                  c = PltFigure \<or> (\<exists>v a b. c = PltVlines v a b) \<or> (\<exists>s. c = PltXlabel s) \<or>
                  (\<exists>s. c = PltYlabel s) \<or> c = PltShow"
    by (elim exE conjE) (rule that, assumption+)
  have "Continuerun (100 * ms) \<in> set (filter (\<lambda>c. \<exists>t. c = Continuerun t) L)"
    by (simp only: f list.set_intros)
  then have m: "Continuerun (100 * ms) \<in> set L" by simp
  from r m have "(\<exists>v. Continuerun (100 * ms) = Finitialize v) \<or> (\<exists>t. Continuerun (100 * ms) = Continuerun t) \<or>
      (\<exists>v. Continuerun (100 * ms) = AsNumpy v) \<or> Continuerun (100 * ms) = PltFigure \<or>
      (\<exists>v a b. Continuerun (100 * ms) = PltVlines v a b) \<or>
      (\<exists>s. Continuerun (100 * ms) = PltXlabel s) \<or>
      (\<exists>s. Continuerun (100 * ms) = PltYlabel s) \<or> Continuerun (100 * ms) = PltShow"
    by (rule bspec)
  with s m show ?thesis
    by (intro exI[of _ g] exI[of _ e] exI[of _ e'] exI[of _ L] conjI)
qed

text \<open>
  C7. The log of the script is \<open>L1\<close>, then \<^verbatim>\<open>finitialize(-65 * mV)\<close>, then
  \<^verbatim>\<open>continuerun(100 * ms)\<close>, then \<open>L2\<close>, and neither \<open>L1\<close> nor \<open>L2\<close> holds another call of
  either: the integrator runs once, right after the initialisation. Every call that binds
  a vector is in \<open>L1\<close>, and \<open>L1\<close> binds each of the nine vectors of the engine once (the
  four of lines 100 to 103 and the five of \<^verbatim>\<open>spike_times\<close>); every read of a vector is in
  \<open>L2\<close>, which reads the five vectors of \<^verbatim>\<open>spike_times\<close> in order. In the model a call has
  returned when the next one is made.
\<close>

theorem one_run:
  "\<exists>g e L1 L2. script shp = Some (g, e) \<and>
     e_log e = L1 @ [Finitialize (- 65 * mV), Continuerun (100 * ms)] @ L2 \<and>
     (\<forall>c\<in>set (L1 @ L2). (\<forall>v. c \<noteq> Finitialize v) \<and> (\<forall>t. c \<noteq> Continuerun t)) \<and>
     (\<forall>c\<in>set L1. \<forall>v. c \<noteq> AsNumpy v) \<and>
     (\<forall>c\<in>set L2. \<forall>v r. c \<noteq> Record v r) \<and>
     filter (\<lambda>c. \<exists>v r. c = Record v r) L1 =
       map (\<lambda>v. Record v (the (vec_bound (e_vecs e ! v)))) [0..<length (e_vecs e)] \<and>
     list_all (\<lambda>v. vec_bound v \<noteq> None) (e_vecs e) \<and>
     length (e_vecs e) = 9 \<and>
     set (g_spike_times g) \<union> {g_v_vec g, g_t_vec g, g_d_vec g, g_syn_i g}
       = {..<length (e_vecs e)} \<and>
     length (g_spike_times g) = 5 \<and>
     filter (\<lambda>c. \<exists>v. c = AsNumpy v) L2 = map AsNumpy (g_spike_times g)"
proof -
  obtain S where S: "script shp = Some (built_globals, built_engine S (setup_log @ run_log))"
    using script_result by blast
  have nine: "{..<9::nat} = {0, 1, 2, 3, 4, 5, 6, 7, 8}" by auto
  show ?thesis
    apply (rule exI[of _ built_globals], rule exI[of _ "built_engine S (setup_log @ run_log)"],
           rule exI[of _ setup_log], rule exI[of _ "drop 2 run_log"])
    apply (simp add: S built_globals_def built_engine_def upt_rec setup_log_def run_log_def
        cell_calls_def nine)
    apply auto
    done
qed

text \<open>
  The read of the first vector of \<^verbatim>\<open>spike_times\<close> comes after the run; it is no binding
  and no call of the integrator.
\<close>

theorem one_run_witness:
  "\<exists>g e L1 L2. script (\<lambda>_ _. []) = Some (g, e) \<and>
     e_log e = L1 @ [Finitialize (- 65 * mV), Continuerun (100 * ms)] @ L2 \<and>
     AsNumpy (g_spike_times g ! 0) \<in> set L2 \<and>
     (\<forall>v r. AsNumpy (g_spike_times g ! 0) \<noteq> Record v r) \<and>
     (\<forall>v. AsNumpy (g_spike_times g ! 0) \<noteq> Finitialize v) \<and>
     (\<forall>t. AsNumpy (g_spike_times g ! 0) \<noteq> Continuerun t)"
proof -
  from one_run[of "\<lambda>_ _. []"] obtain g e L1 L2 where
    s: "script (\<lambda>_ _. []) = Some (g, e)"
       "e_log e = L1 @ [Finitialize (- 65 * mV), Continuerun (100 * ms)] @ L2" and
    a: "\<forall>c\<in>set (L1 @ L2). (\<forall>v. c \<noteq> Finitialize v) \<and> (\<forall>t. c \<noteq> Continuerun t)" and
    b: "\<forall>c\<in>set L2. \<forall>v r. c \<noteq> Record v r" and
    l: "length (g_spike_times g) = 5" and
    f: "filter (\<lambda>c. \<exists>v. c = AsNumpy v) L2 = map AsNumpy (g_spike_times g)"
    by (elim exE conjE) (rule that, assumption+)
  have "AsNumpy (g_spike_times g ! 0) \<in> set (map AsNumpy (g_spike_times g))"
    using l by simp
  then have "AsNumpy (g_spike_times g ! 0) \<in> set (filter (\<lambda>c. \<exists>v. c = AsNumpy v) L2)"
    by (simp only: f)
  then have m: "AsNumpy (g_spike_times g ! 0) \<in> set L2" by simp
  then have m': "AsNumpy (g_spike_times g ! 0) \<in> set (L1 @ L2)" by simp
  from b m have "\<forall>v r. AsNumpy (g_spike_times g ! 0) \<noteq> Record v r" by (rule bspec)
  moreover from a m' have "(\<forall>v. AsNumpy (g_spike_times g ! 0) \<noteq> Finitialize v) \<and>
      (\<forall>t. AsNumpy (g_spike_times g ! 0) \<noteq> Continuerun t)" by (rule bspec)
  ultimately show ?thesis
    using s m by (intro exI[of _ g] exI[of _ e] exI[of _ L1] exI[of _ L2]) simp
qed

text \<open>
  C8. \<^verbatim>\<open>rotate_z(theta)\<close> on a cell whose list \<^verbatim>\<open>all\<close> holds sections of the engine, each
  once, always returns. Every cell is such a cell: \<^verbatim>\<open>all\<close> is \<^verbatim>\<open>soma.wholetree()\<close>, and
  \<open>BallAndStick_all\<close> proves both hypotheses for every cell that the constructor returns.
  \<^verbatim>\<open>rotate_z\<close> leaves the attributes of the cell as they were. In every section of the
  cell it maps every 3D point \<open>(x, y, z, d)\<close> to
  \<open>(x * cos theta - y * sin theta, x * sin theta + y * cos theta, z, d)\<close> and changes
  nothing else of the section; it leaves every other section and every other table of the
  engine as it was.
\<close>

theorem rotate_z_frame:
  assumes "distinct (c_all c)" and "\<forall>k\<in>set (c_all c). k < length (e_secs e)"
  shows "\<exists>e'. rotate_z c theta e = Some (c, e') \<and>
     length (e_secs e') = length (e_secs e) \<and>
     (\<forall>k<length (e_secs e).
        e_secs e' ! k =
          (if k \<in> set (c_all c)
           then (e_secs e ! k)
                  \<lparr>sec_pts := map (\<lambda>p. \<lparr>px = px p * cos theta - py p * sin theta,
                                         py = px p * sin theta + py p * cos theta,
                                         pz = pz p, pdiam = pdiam p\<rparr>)
                                 (sec_pts (e_secs e ! k))\<rparr>
           else e_secs e ! k)) \<and>
     e_stims e' = e_stims e \<and> e_syns e' = e_syns e \<and> e_netcons e' = e_netcons e \<and>
     e_vecs e' = e_vecs e"
proof -
  have pr: "planar_rotation theta = (\<lambda>p. \<lparr>px = px p * cos theta - py p * sin theta,
                                         py = px p * sin theta + py p * cos theta,
                                         pz = pz p, pdiam = pdiam p\<rparr>)"
    by (rule ext) (simp add: planar_rotation_def)
  from rotate_secs_loop[OF assms, of theta] show ?thesis
    unfolding pr by (auto simp: rotate_z_def)
qed

text \<open>
  A quarter turn takes the point \<open>(1, 0, 2)\<close> of diameter 3 to \<open>(0, 1, 2)\<close>, of diameter
  3.
\<close>

theorem rotate_z_frame_witness:
  "\<exists>e'. rotate_z \<lparr>c_id = 0, c_soma = 0, c_dend = 0, c_all = [0], c_x = 0, c_y = 0, c_z = 0\<rparr> (pi / 2)
           (e0\<lparr>e_secs := [\<lparr>sec_name = ''soma'', sec_parent = None, sec_L = None,
                sec_diam = None, sec_Ra = None, sec_cm = None, sec_nseg = 1, sec_mechs = [],
                sec_segvars = [], sec_pts = [\<lparr>px = 1, py = 0, pz = 2, pdiam = 3\<rparr>]\<rparr>]\<rparr>)
         = Some (\<lparr>c_id = 0, c_soma = 0, c_dend = 0, c_all = [0], c_x = 0, c_y = 0, c_z = 0\<rparr>, e') \<and>
       sec_pts (e_secs e' ! 0) = [\<lparr>px = 0, py = 1, pz = 2, pdiam = 3\<rparr>]"
proof -
  let ?c = "\<lparr>c_id = 0, c_soma = 0, c_dend = 0, c_all = [0], c_x = 0, c_y = 0, c_z = 0\<rparr>"
  let ?e = "e0\<lparr>e_secs := [\<lparr>sec_name = ''soma'', sec_parent = None, sec_L = None,
                sec_diam = None, sec_Ra = None, sec_cm = None, sec_nseg = 1, sec_mechs = [],
                sec_segvars = [], sec_pts = [\<lparr>px = 1, py = 0, pz = 2, pdiam = 3\<rparr>]\<rparr>]\<rparr>"
  have d: "distinct (c_all ?c)" by simp
  have v: "\<forall>k\<in>set (c_all ?c). k < length (e_secs ?e)" by simp
  from rotate_z_frame[OF d v, of "pi / 2"] obtain e' where
    s: "rotate_z ?c (pi / 2) ?e = Some (?c, e')" and
    r: "\<forall>k<length (e_secs ?e).
        e_secs e' ! k =
          (if k \<in> set (c_all ?c)
           then (e_secs ?e ! k)
                  \<lparr>sec_pts := map (\<lambda>p. \<lparr>px = px p * cos (pi / 2) - py p * sin (pi / 2),
                                         py = px p * sin (pi / 2) + py p * cos (pi / 2),
                                         pz = pz p, pdiam = pdiam p\<rparr>)
                                 (sec_pts (e_secs ?e ! k))\<rparr>
           else e_secs ?e ! k)"
    by (elim exE conjE) (rule that, assumption+)
  have "(0::nat) < length (e_secs ?e)" by simp
  with r have "e_secs e' ! 0 =
          (if 0 \<in> set (c_all ?c)
           then (e_secs ?e ! 0)
                  \<lparr>sec_pts := map (\<lambda>p. \<lparr>px = px p * cos (pi / 2) - py p * sin (pi / 2),
                                         py = px p * sin (pi / 2) + py p * cos (pi / 2),
                                         pz = pz p, pdiam = pdiam p\<rparr>)
                                 (sec_pts (e_secs ?e ! 0))\<rparr>
           else e_secs ?e ! 0)"
    by blast
  then have "sec_pts (e_secs e' ! 0) = [\<lparr>px = 0, py = 1, pz = 2, pdiam = 3\<rparr>]"
    by simp
  with s show ?thesis by (intro exI[of _ e']) simp
qed

text \<open>
  C9. \<^verbatim>\<open>recording_cell\<close> is \<^verbatim>\<open>my_cells[0]\<close>. The only connection of the engine from a
  stimulus ends on the synapse \<^verbatim>\<open>syn_\<close>, which is on the dendrite of that cell, at 0.5; \<^verbatim>\<open>v_vec\<close> is bound to the membrane voltage at 0.5 of its soma and \<^verbatim>\<open>d_vec\<close>
  to that at 0.5 of its dendrite, and these are the only vectors of the engine bound to a
  membrane voltage. \<^verbatim>\<open>my_cells[0]\<close> is the only cell that owns these sections.
\<close>

theorem stimulated_is_recorded:
  "\<exists>g e. script shp = Some (g, e) \<and> g_my_cells g \<noteq> [] \<and>
     g_recording_cell g = g_my_cells g ! 0 \<and>
     filter (\<lambda>k. \<exists>s. nc_src (e_netcons e ! k) = SrcStim s) [0..<length (e_netcons e)]
       = [g_ncstim g] \<and>
     nc_src (e_netcons e ! g_ncstim g) = SrcStim (g_stim g) \<and>
     nc_target (e_netcons e ! g_ncstim g) = g_syn g \<and>
     syn_sec (e_syns e ! g_syn g) = c_dend (g_my_cells g ! 0) \<and>
     syn_loc (e_syns e ! g_syn g) = 0.5 \<and>
     syn_sec (e_syns e ! g_syn g) = c_dend (g_recording_cell g) \<and>
     vec_bound (e_vecs e ! g_v_vec g) = Some (RefV (c_soma (g_recording_cell g)) 0.5) \<and>
     vec_bound (e_vecs e ! g_d_vec g) = Some (RefV (c_dend (g_recording_cell g)) 0.5) \<and>
     filter (\<lambda>v. \<exists>s x. vec_bound (e_vecs e ! v) = Some (RefV s x)) [0..<length (e_vecs e)]
       = [g_v_vec g, g_d_vec g] \<and>
     c_soma (g_recording_cell g) \<in> set (c_all (g_my_cells g ! 0)) \<and>
     c_dend (g_recording_cell g) \<in> set (c_all (g_my_cells g ! 0)) \<and>
     filter (\<lambda>c. c_dend (g_recording_cell g) \<in> set (c_all c) \<or>
                  c_soma (g_recording_cell g) \<in> set (c_all c)) (g_my_cells g)
       = [g_my_cells g ! 0]"
proof -
  obtain S where S: "script shp = Some (built_globals, built_engine S (setup_log @ run_log))"
    using script_result by blast
  show ?thesis
    apply (rule exI[of _ built_globals], rule exI[of _ "built_engine S (setup_log @ run_log)"])
    apply (simp add: S built_globals_def built_engine_def mk_cell_def upt_rec ex_half)
    done
qed

text \<open>
  At a concrete layout: the recorded cell is the first cell and carries the synapse of the
  stimulus.
\<close>

theorem stimulated_is_recorded_witness:
  "\<exists>g e. script (\<lambda>_ _. []) = Some (g, e) \<and> g_recording_cell g = g_my_cells g ! 0 \<and>
     syn_sec (e_syns e ! g_syn g) = c_dend (g_recording_cell g) \<and>
     vec_bound (e_vecs e ! g_v_vec g) = Some (RefV (c_soma (g_recording_cell g)) 0.5)"
  using stimulated_is_recorded[of "\<lambda>_ _. []"] by (elim exE conjE) (intro exI conjI, assumption+)

text \<open>
  C10. \<^verbatim>\<open>my_cells\<close>, \<^verbatim>\<open>syns\<close>, \<^verbatim>\<open>netcons\<close> and \<^verbatim>\<open>spike_times\<close> have five elements each, without
  repetition. The engine holds six synapses, six connections and nine vectors: the
  synapses of \<^verbatim>\<open>syns\<close> are all its synapses but that of the stimulus, the connections of
  \<^verbatim>\<open>netcons\<close> all its connections but that of the stimulus and all those with a membrane
  voltage as source, and the vectors of \<^verbatim>\<open>spike_times\<close> all the vectors bound to spike
  times. For every \<open>i < 5\<close>, \<^verbatim>\<open>netcons[i]\<close> has \<open>weight[0] = 0.05\<close> and delay 5, and
  records into \<^verbatim>\<open>spike_times[i]\<close>, the only vector of the engine bound to it; among all
  connections of the engine exactly one has its source on cell \<open>i\<close>, and among those with
  a membrane voltage as source exactly one has its target on cell \<open>i\<close>.
\<close>

theorem ring_lists:
  "\<exists>g e. script shp = Some (g, e) \<and>
     length (g_my_cells g) = 5 \<and> length (g_syns g) = 5 \<and> length (g_netcons g) = 5 \<and>
     length (g_spike_times g) = 5 \<and>
     distinct (g_syns g) \<and> distinct (g_netcons g) \<and> distinct (g_spike_times g) \<and>
     length (e_syns e) = 6 \<and> length (e_netcons e) = 6 \<and> length (e_vecs e) = 9 \<and>
     filter (\<lambda>k. k \<noteq> g_syn g) [0..<length (e_syns e)] = g_syns g \<and>
     filter (\<lambda>k. k \<noteq> g_ncstim g) [0..<length (e_netcons e)] = g_netcons g \<and>
     filter (\<lambda>k. \<exists>s x. nc_src (e_netcons e ! k) = SrcVoltage s x) [0..<length (e_netcons e)]
       = g_netcons g \<and>
     filter (\<lambda>v. \<exists>nc. vec_bound (e_vecs e ! v) = Some (RefSpikes nc)) [0..<length (e_vecs e)]
       = g_spike_times g \<and>
     (\<forall>i<5. nc_weight0 (e_netcons e ! (g_netcons g ! i)) = Some 0.05 \<and>
            nc_delay (e_netcons e ! (g_netcons g ! i)) = Some 5 \<and>
            nc_record (e_netcons e ! (g_netcons g ! i)) = Some (g_spike_times g ! i) \<and>
            vec_bound (e_vecs e ! (g_spike_times g ! i)) = Some (RefSpikes (g_netcons g ! i)) \<and>
            filter (\<lambda>v. vec_bound (e_vecs e ! v) = Some (RefSpikes (g_netcons g ! i)))
              [0..<length (e_vecs e)] = [g_spike_times g ! i] \<and>
            filter (\<lambda>k. \<exists>x. nc_src (e_netcons e ! k) = SrcVoltage (c_soma (g_my_cells g ! i)) x)
              [0..<length (e_netcons e)] = [g_netcons g ! i] \<and>
            filter (\<lambda>k. (\<exists>s x. nc_src (e_netcons e ! k) = SrcVoltage s x) \<and>
                         syn_sec (e_syns e ! nc_target (e_netcons e ! k))
                           \<in> set (c_all (g_my_cells g ! i)))
              [0..<length (e_netcons e)] = [g_netcons g ! ((i + 4) mod 5)])"
proof -
  obtain S where S: "script shp = Some (built_globals, built_engine S (setup_log @ run_log))"
    using script_result by blast
  show ?thesis
    apply (rule exI[of _ built_globals], rule exI[of _ "built_engine S (setup_log @ run_log)"])
    apply (simp add: S built_globals_def built_engine_def all_less_5 mk_cell_def upt_rec ex_half)
    done
qed

text \<open>
  The first connection of the ring has weight 0.05 and delay 5 and records into the first
  vector of \<^verbatim>\<open>spike_times\<close>.
\<close>

theorem ring_lists_witness:
  "\<exists>g e. script (\<lambda>_ _. []) = Some (g, e) \<and>
     nc_weight0 (e_netcons e ! (g_netcons g ! 0)) = Some 0.05 \<and>
     nc_delay (e_netcons e ! (g_netcons g ! 0)) = Some 5 \<and>
     nc_record (e_netcons e ! (g_netcons g ! 0)) = Some (g_spike_times g ! 0)"
proof -
  from ring_lists[of "\<lambda>_ _. []"] obtain g e where
    s: "script (\<lambda>_ _. []) = Some (g, e)" and
    r: "\<forall>i<5. nc_weight0 (e_netcons e ! (g_netcons g ! i)) = Some 0.05 \<and>
            nc_delay (e_netcons e ! (g_netcons g ! i)) = Some 5 \<and>
            nc_record (e_netcons e ! (g_netcons g ! i)) = Some (g_spike_times g ! i) \<and>
            vec_bound (e_vecs e ! (g_spike_times g ! i)) = Some (RefSpikes (g_netcons g ! i)) \<and>
            filter (\<lambda>v. vec_bound (e_vecs e ! v) = Some (RefSpikes (g_netcons g ! i)))
              [0..<length (e_vecs e)] = [g_spike_times g ! i] \<and>
            filter (\<lambda>k. \<exists>x. nc_src (e_netcons e ! k) = SrcVoltage (c_soma (g_my_cells g ! i)) x)
              [0..<length (e_netcons e)] = [g_netcons g ! i] \<and>
            filter (\<lambda>k. (\<exists>s x. nc_src (e_netcons e ! k) = SrcVoltage s x) \<and>
                         syn_sec (e_syns e ! nc_target (e_netcons e ! k))
                           \<in> set (c_all (g_my_cells g ! i)))
              [0..<length (e_netcons e)] = [g_netcons g ! ((i + 4) mod 5)]"
    by (elim exE conjE) (rule that, assumption+)
  have "(0::nat) < 5" by simp
  with r have "nc_weight0 (e_netcons e ! (g_netcons g ! 0)) = Some 0.05 \<and>
     nc_delay (e_netcons e ! (g_netcons g ! 0)) = Some 5 \<and>
     nc_record (e_netcons e ! (g_netcons g ! 0)) = Some (g_spike_times g ! 0)"
    by blast
  with s show ?thesis by (intro exI[of _ g] exI[of _ e]) simp
qed

end
